theory Spec2Isabelle
  imports Complex_Main "HOL-Library.Word" "HOL-Library.Sublist"
begin

section \<open>Scope\<close>

text \<open>
  This theory embeds the request handlers of \<open>server.js\<close>: the authentication middleware,
  language detection, the mock response generator and the fourteen routes, over a store
  of user and chat documents. Four things are fixed throughout.
  \<^item> The fields of a registration are arbitrary JSON values. A field of any other request
    body has the type its handler gives it (a string, or a number for a coordinate) or is
    absent.
  \<^item> Requests run one at a time; a handler is a function from the store and the request
    to the response and the new store.
  \<^item> The store holds strings as UTF-8, so a string is read back with every surrogate
    that has no partner replaced by U+FFFD. The store fails only where a new document has
    an identifier that is in use or violates its schema; the handler then answers 500, as
    its \<open>catch\<close> does.
  \<^item> The functions of the libraries (validator, bcryptjs, jsonwebtoken, the string cast
    of the object-document mapper) and the conversions of the JavaScript engine between
    strings and numbers and to lower case outside ASCII are parameters.
\<close>

section \<open>JavaScript strings\<close>

text \<open>
  A JavaScript string is a sequence of UTF-16 code units. \<open>length\<close>, \<open>substring\<close>,
  \<open>includes\<close>, \<open>trim\<close> and a regular expression without the \<open>u\<close> flag all work on
  code units, so the model is a list of 16-bit words. \<open>ascii\<close> embeds a literal whose
  characters are all below U+0080; every other code unit of a literal is written as a
  number.
\<close>

type_synonym jsstring = "16 word list"

definition ascii :: "string \<Rightarrow> jsstring" where
  "ascii s = map of_char s"

text \<open>\<open>s.includes(t)\<close>: \<open>t\<close> occurs in \<open>s\<close> as a contiguous run of code units.\<close>

definition includes_str :: "jsstring \<Rightarrow> jsstring \<Rightarrow> bool" where
  "includes_str s t = sublist t s"

text \<open>\<open>s.substring(0, n)\<close> for \<open>0 \<le> n\<close>: the first \<open>n\<close> code units, or all of \<open>s\<close> when it is shorter.\<close>

definition substring0 :: "jsstring \<Rightarrow> nat \<Rightarrow> jsstring" where
  "substring0 s n = take n s"

text \<open>
  \<open>s.trim()\<close> removes the white space and line terminators of ECMAScript from both ends:
  TAB, LF, VT, FF, CR, SPACE, NBSP, the space separators of Unicode (U+1680,
  U+2000 to U+200A, U+202F, U+205F, U+3000), LS, PS and the byte order mark.
\<close>

definition isWhiteSpace :: "16 word \<Rightarrow> bool" where
  "isWhiteSpace u =
     (u = 0x09 \<or> u = 0x0A \<or> u = 0x0B \<or> u = 0x0C \<or> u = 0x0D \<or> u = 0x20 \<or> u = 0xA0 \<or>
      u = 0x1680 \<or> (0x2000 \<le> u \<and> u \<le> 0x200A) \<or> u = 0x2028 \<or> u = 0x2029 \<or>
      u = 0x202F \<or> u = 0x205F \<or> u = 0x3000 \<or> u = 0xFEFF)"

definition trim :: "jsstring \<Rightarrow> jsstring" where
  "trim s = rev (dropWhile isWhiteSpace (rev (dropWhile isWhiteSpace s)))"

text \<open>
  \<open>s.toLowerCase()\<close> applies the lower-case mapping of Unicode. On a string of code units
  below U+0080 that mapping is \<open>A\<close>..\<open>Z\<close> to \<open>a\<close>..\<open>z\<close> and nothing else. On any other
  string it is the table of the JavaScript engine, which is no part of the program: the
  model takes it as the parameter \<open>unicodeLower\<close>.
\<close>

definition asciiLower :: "16 word \<Rightarrow> 16 word" where
  "asciiLower u = (if 0x41 \<le> u \<and> u \<le> 0x5A then u + 0x20 else u)"

definition toLowerCase :: "(jsstring \<Rightarrow> jsstring) \<Rightarrow> jsstring \<Rightarrow> jsstring" where
  "toLowerCase unicodeLower s =
     (if list_all (\<lambda>u. u < 0x80) s then map asciiLower s else unicodeLower s)"

text \<open>
  \<open>s.replace(p, r)\<close> with a string pattern replaces the first occurrence of \<open>p\<close> in \<open>s\<close>
  (the replacement used by the program holds no \<open>$\<close> pattern).
\<close>

fun replace_str :: "jsstring \<Rightarrow> jsstring \<Rightarrow> jsstring \<Rightarrow> jsstring" where
  "replace_str [] p r = (if p = [] then r else [])"
| "replace_str (c # s) p r =
     (if prefix p (c # s) then r @ drop (length p) (c # s) else c # replace_str s p r)"

text \<open>
  The store writes a string as UTF-8. A surrogate code unit that is not half of a pair (a
  high surrogate followed by a low one) has no UTF-8 form and is written as U+FFFD.
  \<open>bson_string s\<close> is the string that is read back after \<open>s\<close> was written.
\<close>

definition is_high :: "16 word \<Rightarrow> bool" where
  "is_high u = (0xD800 \<le> u \<and> u \<le> 0xDBFF)"

definition is_low :: "16 word \<Rightarrow> bool" where
  "is_low u = (0xDC00 \<le> u \<and> u \<le> 0xDFFF)"

definition lone :: "16 word \<Rightarrow> 16 word" where
  "lone u = (if is_high u \<or> is_low u then 0xFFFD else u)"

fun bson_string :: "jsstring \<Rightarrow> jsstring" where
  "bson_string [] = []"
| "bson_string [u] = [lone u]"
| "bson_string (u # v # s) =
     (if is_high u \<and> is_low v then u # v # bson_string s else lone u # bson_string (v # s))"

section \<open>Language detection\<close>

text \<open>
  \<open>detectLanguage\<close> tests three character classes in turn; a class matches when some code
  unit of the text lies in its range.
\<close>

definition banglaPattern :: "jsstring \<Rightarrow> bool" where
  "banglaPattern s = list_ex (\<lambda>u. 0x0980 \<le> u \<and> u \<le> 0x09FF) s"

definition arabicPattern :: "jsstring \<Rightarrow> bool" where
  "arabicPattern s = list_ex (\<lambda>u. 0x0600 \<le> u \<and> u \<le> 0x06FF) s"

definition chinesePattern :: "jsstring \<Rightarrow> bool" where
  "chinesePattern s = list_ex (\<lambda>u. 0x4E00 \<le> u \<and> u \<le> 0x9FFF) s"

definition detectLanguage :: "jsstring \<Rightarrow> jsstring" where
  "detectLanguage s =
     (if banglaPattern s then ascii ''bn''
      else if arabicPattern s then ascii ''ar''
      else if chinesePattern s then ascii ''zh''
      else ascii ''en'')"

section \<open>JSON values\<close>

text \<open>
  Response bodies and the structured recommendations are JSON values. A number is a
  rational, a date is a number of milliseconds, and \<open>JId\<close> is an object identifier (in a
  response, its string of hexadecimal digits). Object keys are the identifiers of the
  source text.
\<close>

type_synonym objectId = nat
type_synonym date = nat

text \<open>
  A number of a request body is the double that the body parser produced: \<open>Finite r\<close> is
  the finite double of value \<open>r\<close> (zero of either sign is \<open>Finite 0\<close>, and a numeral too
  small for a double arrives as \<open>Finite 0\<close>), and a numeral too large for a double arrives
  as an infinity. The parser never produces a NaN.
\<close>

datatype jsnum = Finite rat | PosInfinity | NegInfinity

text \<open>
  A value of a parsed JSON body. The keys of an object are distinct (the parser keeps the
  last of two equal keys).
\<close>

datatype jsvalue =
    VNull
  | VBool bool
  | VNum jsnum
  | VStr jsstring
  | VArr "jsvalue list"
  | VObj "(jsstring \<times> jsvalue) list"

datatype json =
    JNull
  | JBool bool
  | JNum rat
  | JStr jsstring
  | JDate date
  | JId objectId
  | JArr "json list"
  | JObj "(string \<times> json) list"

section \<open>The response generator\<close>

record ai_response =
  content :: jsstring
  recommendations :: "json list"

definition cheesecake_content :: jsstring where
  "cheesecake_content =
      ascii ''I found several great places for cheesecake near you! Here are the top recommendations:'' @
      [0x0A, 0x0A, 0xD83C, 0xDF70] @
      ascii '' **Sweet Dreams Bakery** - 2.3 miles away'' @
      [0x0A] @
      ascii ''- Fresh New York style cheesecake'' @
      [0x0A] @
      ascii ''- Rating: 4.8/5'' @
      [0x0A] @
      ascii ''- Special offer: 20% off today!'' @
      [0x0A, 0x0A, 0xD83C, 0xDF70] @
      ascii '' **Cafe Delight** - 1.8 miles away'' @
      [0x0A] @
      ascii ''- Artisanal cheesecakes'' @
      [0x0A] @
      ascii ''- Rating: 4.6/5'' @
      [0x0A] @
      ascii ''- Free delivery on orders over $25''"

definition deals_content :: jsstring where
  "deals_content =
      ascii ''Here are the best deals available right now:'' @
      [0x0A, 0x0A, 0xD83D, 0xDCB0] @
      ascii '' **Flash Sale Alert!**'' @
      [0x0A] @
      ascii ''- 50% off electronics at TechStore'' @
      [0x0A] @
      ascii ''- Buy 2 get 1 free at Fashion Hub'' @
      [0x0A] @
      ascii ''- Free shipping on orders over $50'' @
      [0x0A, 0x0A, 0xD83D, 0xDD25] @
      ascii '' **Limited Time Offers:**'' @
      [0x0A] @
      ascii ''- 30% off restaurant meals via FoodApp'' @
      [0x0A] @
      ascii ''- 25% cashback on grocery shopping''"

definition restaurant_content :: jsstring where
  "restaurant_content =
      ascii ''I found some amazing restaurants near you:'' @
      [0x0A, 0x0A, 0xD83C, 0xDF55] @
      ascii '' **Pizza Palace** - 1.2 miles'' @
      [0x0A] @
      ascii ''- Authentic Italian pizza'' @
      [0x0A] @
      ascii ''- Rating: 4.7/5'' @
      [0x0A] @
      ascii ''- 15% off for new customers'' @
      [0x0A, 0x0A, 0xD83C, 0xDF63] @
      ascii '' **Sushi Zen** - 2.1 miles'' @
      [0x0A] @
      ascii ''- Fresh sushi and sashimi'' @
      [0x0A] @
      ascii ''- Rating: 4.9/5'' @
      [0x0A] @
      ascii ''- Happy hour: 3-6 PM daily''"

definition default_content :: jsstring where
  "default_content =
      ascii ''I'' @
      [0x27] @
      ascii ''m here to help you find the best deals, recommendations, and local businesses! You can ask me about:'' @
      [0x0A, 0x0A, 0x2022] @
      ascii '' Finding nearby restaurants, shops, or services'' @
      [0x0A, 0x2022] @
      ascii '' Getting the latest deals and offers'' @
      [0x0A, 0x2022] @
      ascii '' Personalized recommendations based on your preferences'' @
      [0x0A, 0x2022] @
      ascii '' Local business information and reviews'' @
      [0x0A, 0x0A] @
      ascii ''What would you like to explore today?''"

definition cheesecake_recommendations :: "json list" where
  "cheesecake_recommendations =
     [JObj [(''name'', JStr (ascii ''Sweet Dreams Bakery'')),
            (''distance'', JStr (ascii ''2.3 miles'')),
            (''rating'', JNum (48 / 10)),
            (''offer'', JStr (ascii ''20% off today''))],
      JObj [(''name'', JStr (ascii ''Cafe Delight'')),
            (''distance'', JStr (ascii ''1.8 miles'')),
            (''rating'', JNum (46 / 10)),
            (''offer'', JStr (ascii ''Free delivery over $25''))]]"

definition deals_recommendations :: "json list" where
  "deals_recommendations =
     [JObj [(''name'', JStr (ascii ''TechStore'')),
            (''offer'', JStr (ascii ''50% off electronics'')),
            (''expires'', JStr (ascii ''24 hours''))],
      JObj [(''name'', JStr (ascii ''Fashion Hub'')),
            (''offer'', JStr (ascii ''Buy 2 get 1 free'')),
            (''expires'', JStr (ascii ''48 hours''))],
      JObj [(''name'', JStr (ascii ''FoodApp'')),
            (''offer'', JStr (ascii ''30% off meals'')),
            (''expires'', JStr (ascii ''This week''))]]"

definition restaurant_recommendations :: "json list" where
  "restaurant_recommendations =
     [JObj [(''name'', JStr (ascii ''Pizza Palace'')),
            (''cuisine'', JStr (ascii ''Italian'')),
            (''distance'', JStr (ascii ''1.2 miles'')),
            (''rating'', JNum (47 / 10))],
      JObj [(''name'', JStr (ascii ''Sushi Zen'')),
            (''cuisine'', JStr (ascii ''Japanese'')),
            (''distance'', JStr (ascii ''2.1 miles'')),
            (''rating'', JNum (49 / 10))]]"

text \<open>
  \<open>generateAIResponse(message, language = 'en')\<close>. The second argument is kept as the
  source has it. The branches are those of the source, in its order.
\<close>

definition generateAIResponse ::
  "(jsstring \<Rightarrow> jsstring) \<Rightarrow> jsstring \<Rightarrow> jsstring \<Rightarrow> ai_response" where
  "generateAIResponse unicodeLower message language =
     (let lowerMessage = toLowerCase unicodeLower message in
      if includes_str lowerMessage (ascii ''cheesecake'') \<or>
         includes_str lowerMessage (ascii ''dessert'')
      then \<lparr>content = cheesecake_content, recommendations = cheesecake_recommendations\<rparr>
      else if includes_str lowerMessage (ascii ''deal'') \<or>
              includes_str lowerMessage (ascii ''offer'') \<or>
              includes_str lowerMessage (ascii ''discount'')
      then \<lparr>content = deals_content, recommendations = deals_recommendations\<rparr>
      else if includes_str lowerMessage (ascii ''restaurant'') \<or>
              includes_str lowerMessage (ascii ''food'') \<or>
              includes_str lowerMessage (ascii ''eat'')
      then \<lparr>content = restaurant_content, recommendations = restaurant_recommendations\<rparr>
      else \<lparr>content = default_content, recommendations = []\<rparr>)"

section \<open>Documents and the store\<close>

text \<open>
  The two collections hold the documents of \<open>UserSchema\<close> and \<open>ChatSchema\<close>, with the
  fields the schemas declare and the \<open>_id\<close> of every stored document. The store is a list
  of documents per collection; \<open>_id\<close> is its primary key.
\<close>

record location =
  loc_latitude :: jsnum
  loc_longitude :: jsnum
  loc_address :: jsstring
  loc_lastUpdated :: date

record user =
  user_id :: objectId
  user_name :: jsstring
  user_email :: jsstring
  user_password :: jsstring
  user_preferredLanguage :: jsstring
  user_location :: "location option"
  user_createdAt :: date

datatype role = User | Assistant

record message =
  msg_role :: role
  msg_content :: jsstring
  msg_timestamp :: date
  msg_language :: jsstring

record chat =
  chat_id :: objectId
  chat_userId :: objectId
  chat_title :: jsstring
  chat_messages :: "message list"
  chat_createdAt :: date
  chat_updatedAt :: date

record db =
  users :: "user list"
  chats :: "chat list"

definition empty_db :: db where
  "empty_db = \<lparr>users = [], chats = []\<rparr>"

text \<open>The documents as they are read back after they were written: every string is encoded.\<close>

definition bson_location :: "location \<Rightarrow> location" where
  "bson_location l = l\<lparr>loc_address := bson_string (loc_address l)\<rparr>"

definition bson_user :: "user \<Rightarrow> user" where
  "bson_user u =
     u\<lparr>user_name := bson_string (user_name u),
       user_email := bson_string (user_email u),
       user_password := bson_string (user_password u),
       user_preferredLanguage := bson_string (user_preferredLanguage u),
       user_location := map_option bson_location (user_location u)\<rparr>"

definition bson_message :: "message \<Rightarrow> message" where
  "bson_message m =
     m\<lparr>msg_content := bson_string (msg_content m),
       msg_language := bson_string (msg_language m)\<rparr>"

definition bson_chat :: "chat \<Rightarrow> chat" where
  "bson_chat c =
     c\<lparr>chat_title := bson_string (chat_title c),
       chat_messages := map bson_message (chat_messages c)\<rparr>"

text \<open>
  The queries of the object-document mapper. \<open>findOne\<close> returns the first document that
  matches; \<open>findOneAndUpdate\<close> (with \<open>new: true\<close>) changes that document and returns it
  as changed; \<open>findOneAndDelete\<close> removes it. Saving a new document fails with a
  duplicate-key error when its \<open>_id\<close> is in the collection already; saving a loaded
  document writes it back under its \<open>_id\<close>. The handlers pass every document and every
  string of a query or an update through the encoding above.
\<close>

definition findOne :: "('a \<Rightarrow> bool) \<Rightarrow> 'a list \<Rightarrow> 'a option" where
  "findOne p xs = List.find p xs"

fun update_first :: "('a \<Rightarrow> bool) \<Rightarrow> ('a \<Rightarrow> 'a) \<Rightarrow> 'a list \<Rightarrow> 'a list" where
  "update_first p f [] = []"
| "update_first p f (x # xs) = (if p x then f x # xs else x # update_first p f xs)"

fun delete_first :: "('a \<Rightarrow> bool) \<Rightarrow> 'a list \<Rightarrow> 'a list" where
  "delete_first p [] = []"
| "delete_first p (x # xs) = (if p x then xs else x # delete_first p xs)"

definition findOneAndUpdate ::
  "('a \<Rightarrow> bool) \<Rightarrow> ('a \<Rightarrow> 'a) \<Rightarrow> 'a list \<Rightarrow> 'a option \<times> 'a list" where
  "findOneAndUpdate p f xs = (map_option f (findOne p xs), update_first p f xs)"

definition findOneAndDelete :: "('a \<Rightarrow> bool) \<Rightarrow> 'a list \<Rightarrow> 'a option \<times> 'a list" where
  "findOneAndDelete p xs = (findOne p xs, delete_first p xs)"

definition save_new :: "('a \<Rightarrow> objectId) \<Rightarrow> 'a \<Rightarrow> 'a list \<Rightarrow> 'a list option" where
  "save_new ident doc xs =
     (if list_ex (\<lambda>x. ident x = ident doc) xs then None else Some (xs @ [doc]))"

definition save_loaded :: "('a \<Rightarrow> objectId) \<Rightarrow> 'a \<Rightarrow> 'a list \<Rightarrow> 'a list" where
  "save_loaded ident doc xs = update_first (\<lambda>x. ident x = ident doc) (\<lambda>_. doc) xs"

section \<open>Responses\<close>

text \<open>\<open>res.status(n).json(v)\<close>; \<open>res.json(v)\<close> answers with status 200.\<close>

record response =
  status :: nat
  body :: json

definition error_response :: "nat \<Rightarrow> string \<Rightarrow> response" where
  "error_response n msg = \<lparr>status = n, body = JObj [(''error'', JStr (ascii msg))]\<rparr>"

definition server_error :: response where
  "server_error = error_response 500 ''Server error''"

definition message_response :: "string \<Rightarrow> response" where
  "message_response msg = \<lparr>status = 200, body = JObj [(''message'', JStr (ascii msg))]\<rparr>"

definition role_str :: "role \<Rightarrow> jsstring" where
  "role_str r = (case r of User \<Rightarrow> ascii ''user'' | Assistant \<Rightarrow> ascii ''assistant'')"

text \<open>A finite number is written as it is; an infinity is written as \<open>null\<close>.\<close>

definition num_json :: "jsnum \<Rightarrow> json" where
  "num_json n = (case n of Finite r \<Rightarrow> JNum r | PosInfinity \<Rightarrow> JNull | NegInfinity \<Rightarrow> JNull)"

definition location_json :: "location \<Rightarrow> json" where
  "location_json l =
     JObj [(''latitude'', num_json (loc_latitude l)),
           (''longitude'', num_json (loc_longitude l)),
           (''address'', JStr (loc_address l)),
           (''lastUpdated'', JDate (loc_lastUpdated l))]"

text \<open>A field that is \<open>undefined\<close> is left out of the JSON text.\<close>

definition optional_field :: "string \<Rightarrow> json option \<Rightarrow> (string \<times> json) list" where
  "optional_field k v = (case v of None \<Rightarrow> [] | Some j \<Rightarrow> [(k, j)])"

text \<open>A user document with all its fields, and a projection that excludes one path.\<close>

definition user_doc :: "user \<Rightarrow> (string \<times> json) list" where
  "user_doc u =
     [(''_id'', JId (user_id u)),
      (''name'', JStr (user_name u)),
      (''email'', JStr (user_email u)),
      (''password'', JStr (user_password u)),
      (''preferredLanguage'', JStr (user_preferredLanguage u))] @
     optional_field ''location'' (map_option location_json (user_location u)) @
     [(''createdAt'', JDate (user_createdAt u))]"

definition select_minus :: "string \<Rightarrow> (string \<times> json) list \<Rightarrow> (string \<times> json) list" where
  "select_minus path doc = filter (\<lambda>kv. fst kv \<noteq> path) doc"

text \<open>The public user fields that register and login return.\<close>

definition public_user :: "user \<Rightarrow> json" where
  "public_user u =
     JObj [(''id'', JId (user_id u)),
           (''name'', JStr (user_name u)),
           (''email'', JStr (user_email u)),
           (''preferredLanguage'', JStr (user_preferredLanguage u))]"

text \<open>A stored message, and the plain object the message handler builds and returns.\<close>

definition message_json :: "message \<Rightarrow> json" where
  "message_json m =
     JObj [(''role'', JStr (role_str (msg_role m))),
           (''content'', JStr (msg_content m)),
           (''timestamp'', JDate (msg_timestamp m)),
           (''language'', JStr (msg_language m))]"

definition message_object :: "message \<Rightarrow> json" where
  "message_object m =
     JObj [(''role'', JStr (role_str (msg_role m))),
           (''content'', JStr (msg_content m)),
           (''language'', JStr (msg_language m)),
           (''timestamp'', JDate (msg_timestamp m))]"

definition chat_json :: "chat \<Rightarrow> json" where
  "chat_json c =
     JObj [(''_id'', JId (chat_id c)),
           (''userId'', JId (chat_userId c)),
           (''title'', JStr (chat_title c)),
           (''messages'', JArr (map message_json (chat_messages c))),
           (''createdAt'', JDate (chat_createdAt c)),
           (''updatedAt'', JDate (chat_updatedAt c))]"

text \<open>The projection \<open>select('title createdAt updatedAt')\<close>, which keeps \<open>_id\<close>.\<close>

definition chat_summary :: "chat \<Rightarrow> json" where
  "chat_summary c =
     JObj [(''_id'', JId (chat_id c)),
           (''title'', JStr (chat_title c)),
           (''createdAt'', JDate (chat_createdAt c)),
           (''updatedAt'', JDate (chat_updatedAt c))]"

text \<open>All keys of a JSON value, at any depth.\<close>

fun json_keys :: "json \<Rightarrow> string list" where
  "json_keys (JArr xs) = concat (map json_keys xs)"
| "json_keys (JObj kvs) = concat (map (\<lambda>kv. fst kv # json_keys (snd kv)) kvs)"
| "json_keys _ = []"

section \<open>Libraries, configuration and request inputs\<close>

text \<open>
  The program calls libraries whose code is no part of it: the e-mail validator, the
  password hash, the token signer, the object-document mapper and the JavaScript engine.
  The model takes their functions as parameters, so every theorem holds for all of them.
  \<open>lib_jwt_verify\<close> is \<open>None\<close> where \<open>jwt.verify\<close> throws or the payload holds no user
  identifier the store can look up; all these paths of the source give the same answer.
  \<open>lib_isEmail\<close>, \<open>lib_bcrypt_hash\<close> and \<open>lib_bcrypt_compare\<close> are the library functions on
  strings; what the libraries do with a value that is no string is written out in the
  handlers. \<open>lib_castString\<close> is the mapper's cast of a value that is no string to the
  string type of a schema (\<open>None\<close> where the cast fails), and \<open>lib_lessThan6\<close> is the
  engine's \<open>v < 6\<close> for a string, an array or an object \<open>v\<close> (\<open>None\<close> where the conversion
  of \<open>v\<close> to a number throws).
\<close>

record library =
  lib_isEmail :: "jsstring \<Rightarrow> bool"
  lib_bcrypt_hash :: "jsstring \<Rightarrow> jsstring \<Rightarrow> jsstring"
  lib_bcrypt_compare :: "jsstring \<Rightarrow> jsstring \<Rightarrow> bool"
  lib_jwt_sign :: "objectId \<Rightarrow> jsstring \<Rightarrow> jsstring \<Rightarrow> jsstring"
  lib_jwt_verify :: "jsstring \<Rightarrow> jsstring \<Rightarrow> objectId option"
  lib_unicodeLower :: "jsstring \<Rightarrow> jsstring"
  lib_numberToString :: "rat \<Rightarrow> jsstring"
  lib_castString :: "jsvalue \<Rightarrow> jsstring option"
  lib_lessThan6 :: "jsvalue \<Rightarrow> bool option"

text \<open>\<open>process.env.JWT_SECRET || 'fallback-secret'\<close>.\<close>

definition jwt_secret :: "jsstring option \<Rightarrow> jsstring" where
  "jwt_secret env_JWT_SECRET =
     (case env_JWT_SECRET of
        None \<Rightarrow> ascii ''fallback-secret''
      | Some s \<Rightarrow> if s = [] then ascii ''fallback-secret'' else s)"

text \<open>
  A field of a request body is \<open>None\<close> when the body does not have it. \<open>falsy\<close> is
  JavaScript's \<open>!v\<close>: an absent value, \<open>null\<close>, \<open>false\<close>, the number zero and the empty
  string are falsy, every other value is truthy. \<open>falsy_str\<close> and \<open>falsy_num\<close> are the same
  test for a field that is a string or absent, and a number or absent.
\<close>

definition falsy :: "jsvalue option \<Rightarrow> bool" where
  "falsy v =
     (case v of
        None \<Rightarrow> True
      | Some VNull \<Rightarrow> True
      | Some (VBool b) \<Rightarrow> \<not> b
      | Some (VNum n) \<Rightarrow> n = Finite 0
      | Some (VStr s) \<Rightarrow> s = []
      | Some (VArr xs) \<Rightarrow> False
      | Some (VObj kvs) \<Rightarrow> False)"

definition falsy_str :: "jsstring option \<Rightarrow> bool" where
  "falsy_str v = (case v of None \<Rightarrow> True | Some s \<Rightarrow> s = [])"

definition falsy_num :: "jsnum option \<Rightarrow> bool" where
  "falsy_num v = (case v of None \<Rightarrow> True | Some n \<Rightarrow> n = Finite 0)"

definition str_val :: "jsstring option \<Rightarrow> jsstring" where
  "str_val v = (case v of None \<Rightarrow> [] | Some s \<Rightarrow> s)"

definition num_val :: "jsnum option \<Rightarrow> jsnum" where
  "num_val v = (case v of None \<Rightarrow> Finite 0 | Some n \<Rightarrow> n)"

text \<open>\<open>String(n)\<close> for a number, as a template literal prints it.\<close>

definition number_to_string :: "library \<Rightarrow> jsnum \<Rightarrow> jsstring" where
  "number_to_string L n =
     (case n of
        Finite r \<Rightarrow> lib_numberToString L r
      | PosInfinity \<Rightarrow> ascii ''Infinity''
      | NegInfinity \<Rightarrow> ascii ''-Infinity'')"

text \<open>
  \<open>x < 6\<close> for a value \<open>x\<close> that may be \<open>undefined\<close>: \<open>undefined\<close> converts to NaN, \<open>null\<close> to
  0, \<open>false\<close> and \<open>true\<close> to 0 and 1. The result is \<open>None\<close> where the conversion throws.
\<close>

definition less_than_6 :: "library \<Rightarrow> jsvalue option \<Rightarrow> bool option" where
  "less_than_6 L x =
     (case x of
        None \<Rightarrow> Some False
      | Some VNull \<Rightarrow> Some True
      | Some (VBool b) \<Rightarrow> Some True
      | Some (VNum (Finite r)) \<Rightarrow> Some (r < 6)
      | Some (VNum PosInfinity) \<Rightarrow> Some False
      | Some (VNum NegInfinity) \<Rightarrow> Some True
      | Some (VStr s) \<Rightarrow> lib_lessThan6 L (VStr s)
      | Some (VArr xs) \<Rightarrow> lib_lessThan6 L (VArr xs)
      | Some (VObj kvs) \<Rightarrow> lib_lessThan6 L (VObj kvs))"

text \<open>
  \<open>v.length < 6\<close>: a string and an array have their lengths, a boolean and a number have no
  \<open>length\<close> (it reads as \<open>undefined\<close>), an object has the \<open>length\<close> its body gave it, if
  any, and reading a property of \<open>undefined\<close> or \<open>null\<close> throws.
\<close>

definition length_below_6 :: "library \<Rightarrow> jsvalue option \<Rightarrow> bool option" where
  "length_below_6 L v =
     (case v of
        None \<Rightarrow> None
      | Some VNull \<Rightarrow> None
      | Some (VBool b) \<Rightarrow> Some False
      | Some (VNum n) \<Rightarrow> Some False
      | Some (VStr s) \<Rightarrow> Some (length s < 6)
      | Some (VArr xs) \<Rightarrow> Some (length xs < 6)
      | Some (VObj kvs) \<Rightarrow> less_than_6 L (map_of kvs (ascii ''length'')))"

text \<open>
  The cast of a field to the string type of its schema: a string is kept, an absent value
  and \<open>null\<close> stay without a value, any other value goes through the mapper's cast.
\<close>

definition cast_string :: "library \<Rightarrow> jsvalue option \<Rightarrow> jsstring option" where
  "cast_string L v =
     (case v of
        None \<Rightarrow> None
      | Some VNull \<Rightarrow> None
      | Some (VStr s) \<Rightarrow> Some s
      | Some (VBool b) \<Rightarrow> lib_castString L (VBool b)
      | Some (VNum n) \<Rightarrow> lib_castString L (VNum n)
      | Some (VArr xs) \<Rightarrow> lib_castString L (VArr xs)
      | Some (VObj kvs) \<Rightarrow> lib_castString L (VObj kvs))"

section \<open>The authentication gate\<close>

text \<open>
  \<open>authMiddleware\<close>: the token is the \<open>Authorization\<close> header with its first
  \<open>'Bearer '\<close> removed. The gate answers 401 or passes the user it loaded on.
\<close>

definition authMiddleware ::
  "library \<Rightarrow> jsstring option \<Rightarrow> db \<Rightarrow> jsstring option \<Rightarrow> response + user" where
  "authMiddleware L env_JWT_SECRET d authorization =
     (let token = map_option (\<lambda>h. replace_str h (ascii ''Bearer '') []) authorization in
      if falsy_str token then Inl (error_response 401 ''Access denied'')
      else
        (case lib_jwt_verify L (str_val token) (jwt_secret env_JWT_SECRET) of
           None \<Rightarrow> Inl (error_response 401 ''Token is not valid'')
         | Some decoded_userId \<Rightarrow>
             (case findOne (\<lambda>u. user_id u = decoded_userId) (users d) of
                None \<Rightarrow> Inl (error_response 401 ''Token is not valid'')
              | Some u \<Rightarrow> Inr u)))"

section \<open>Registration and login\<close>

text \<open>
  \<open>POST /api/auth/register\<close>. \<open>salt\<close> is what \<open>bcrypt.genSalt(10)\<close> returned, \<open>newId\<close> the
  identifier the new document got, \<open>now\<close> the clock. The three fields are any values of a
  JSON body. \<open>validator.isEmail\<close> throws for a value that is no string and \<open>bcrypt.hash\<close>
  rejects one; \<open>user.save()\<close> rejects a document whose name has no value or is empty
  (the schema requires it) or whose identifier is in use. Each of these ends in the
  \<open>catch\<close>. The response is built from the document in memory, the store gets the
  encoded one.
\<close>

definition register ::
  "library \<Rightarrow> jsstring option \<Rightarrow> db \<Rightarrow> jsstring \<Rightarrow> objectId \<Rightarrow> date \<Rightarrow>
   jsvalue option \<Rightarrow> jsvalue option \<Rightarrow> jsvalue option \<Rightarrow> response \<times> db" where
  "register L env_JWT_SECRET d salt newId now name email password =
     (if falsy name \<or> falsy email \<or> falsy password
      then (error_response 400 ''Please provide all required fields'', d)
      else
        (case email of
           Some (VStr e) \<Rightarrow>
             if \<not> lib_isEmail L e
             then (error_response 400 ''Please provide a valid email'', d)
             else
               (case length_below_6 L password of
                  None \<Rightarrow> (server_error, d)
                | Some True \<Rightarrow> (error_response 400 ''Password must be at least 6 characters'', d)
                | Some False \<Rightarrow>
                    (case findOne (\<lambda>u. user_email u = bson_string e) (users d) of
                       Some existingUser \<Rightarrow> (error_response 400 ''User already exists'', d)
                     | None \<Rightarrow>
                         (case password of
                            Some (VStr p) \<Rightarrow>
                              (let hashedPassword = lib_bcrypt_hash L p salt in
                               case cast_string L name of
                                 None \<Rightarrow> (server_error, d)
                               | Some n \<Rightarrow>
                                   if n = [] then (server_error, d)
                                   else
                                     (let u = \<lparr>user_id = newId,
                                               user_name = n,
                                               user_email = e,
                                               user_password = hashedPassword,
                                               user_preferredLanguage = ascii ''en'',
                                               user_location = None,
                                               user_createdAt = now\<rparr>
                                      in case save_new user_id (bson_user u) (users d) of
                                           None \<Rightarrow> (server_error, d)
                                         | Some us \<Rightarrow>
                                             (\<lparr>status = 201,
                                               body = JObj
                                                 [(''token'', JStr (lib_jwt_sign L (user_id u)
                                                     (jwt_secret env_JWT_SECRET) (ascii ''7d''))),
                                                  (''user'', public_user u)]\<rparr>,
                                              d\<lparr>users := us\<rparr>)))
                          | _ \<Rightarrow> (server_error, d))))
         | _ \<Rightarrow> (server_error, d)))"

text \<open>\<open>POST /api/auth/login\<close>.\<close>

definition login ::
  "library \<Rightarrow> jsstring option \<Rightarrow> db \<Rightarrow> jsstring option \<Rightarrow> jsstring option \<Rightarrow> response \<times> db" where
  "login L env_JWT_SECRET d email password =
     (if falsy_str email \<or> falsy_str password
      then (error_response 400 ''Please provide email and password'', d)
      else
        (case findOne (\<lambda>u. user_email u = bson_string (str_val email)) (users d) of
           None \<Rightarrow> (error_response 400 ''Invalid credentials'', d)
         | Some u \<Rightarrow>
             if \<not> lib_bcrypt_compare L (str_val password) (user_password u)
             then (error_response 400 ''Invalid credentials'', d)
             else
               (\<lparr>status = 200,
                 body = JObj [(''token'', JStr (lib_jwt_sign L (user_id u)
                                             (jwt_secret env_JWT_SECRET) (ascii ''7d''))),
                              (''user'', public_user u)]\<rparr>,
                d)))"

section \<open>Chat routes\<close>

text \<open>
  Every chat handler runs behind the gate; \<open>uid\<close> is \<open>req.user._id\<close> and \<open>chatId\<close> is the
  identifier in the path, taken to be a well-formed identifier.
\<close>

text \<open>\<open>GET /api/chats\<close>: the caller's chats, latest update first.\<close>

definition listChats :: "db \<Rightarrow> objectId \<Rightarrow> response \<times> db" where
  "listChats d uid =
     (\<lparr>status = 200,
       body = JArr (map chat_summary
                 (sort_key (\<lambda>c. - int (chat_updatedAt c))
                    (filter (\<lambda>c. chat_userId c = uid) (chats d))))\<rparr>,
      d)"

text \<open>\<open>POST /api/chats\<close>.\<close>

definition createChat :: "db \<Rightarrow> objectId \<Rightarrow> objectId \<Rightarrow> date \<Rightarrow> response \<times> db" where
  "createChat d uid newId now =
     (let c = \<lparr>chat_id = newId, chat_userId = uid, chat_title = ascii ''New Chat'',
                chat_messages = [], chat_createdAt = now, chat_updatedAt = now\<rparr>
      in case save_new chat_id (bson_chat c) (chats d) of
           None \<Rightarrow> (server_error, d)
         | Some cs \<Rightarrow> (\<lparr>status = 201, body = chat_json c\<rparr>, d\<lparr>chats := cs\<rparr>))"

text \<open>\<open>GET /api/chats/:chatId\<close>.\<close>

definition getChat :: "db \<Rightarrow> objectId \<Rightarrow> objectId \<Rightarrow> response \<times> db" where
  "getChat d uid chatId =
     (case findOne (\<lambda>c. chat_id c = chatId \<and> chat_userId c = uid) (chats d) of
        None \<Rightarrow> (error_response 404 ''Chat not found'', d)
      | Some c \<Rightarrow> (\<lparr>status = 200, body = chat_json c\<rparr>, d))"

text \<open>
  \<open>POST /api/chats/:chatId/messages\<close>. \<open>t1\<close>, \<open>t2\<close> and \<open>t3\<close> are the three readings of the
  clock, in the order of the source. The response holds the two messages as the handler
  built them; \<open>chat.save()\<close> writes the chat to the store, which encodes its strings.
\<close>

definition postMessage ::
  "library \<Rightarrow> db \<Rightarrow> objectId \<Rightarrow> objectId \<Rightarrow> date \<Rightarrow> date \<Rightarrow> date \<Rightarrow>
   jsstring option \<Rightarrow> response \<times> db" where
  "postMessage L d uid chatId t1 t2 t3 message =
     (if falsy_str message \<or> trim (str_val message) = []
      then (error_response 400 ''Message is required'', d)
      else
        (case findOne (\<lambda>c. chat_id c = chatId \<and> chat_userId c = uid) (chats d) of
           None \<Rightarrow> (error_response 404 ''Chat not found'', d)
         | Some c \<Rightarrow>
             (let detectedLanguage = detectLanguage (str_val message);
                  userMessage = \<lparr>msg_role = User, msg_content = trim (str_val message),
                                  msg_timestamp = t1, msg_language = detectedLanguage\<rparr>;
                  c1 = c\<lparr>chat_messages := chat_messages c @ [userMessage]\<rparr>;
                  aiResponse = generateAIResponse (lib_unicodeLower L) (str_val message)
                                 detectedLanguage;
                  assistantMessage = \<lparr>msg_role = Assistant, msg_content = content aiResponse,
                                       msg_timestamp = t2, msg_language = detectedLanguage\<rparr>;
                  c2 = c1\<lparr>chat_messages := chat_messages c1 @ [assistantMessage]\<rparr>;
                  c3 = (if length (chat_messages c2) = 2
                        then c2\<lparr>chat_title := substring0 (str_val message) 50 @
                                 (if length (str_val message) > 50 then ascii ''...'' else [])\<rparr>
                        else c2);
                  c4 = c3\<lparr>chat_updatedAt := t3\<rparr>
              in (\<lparr>status = 200,
                   body = JObj [(''userMessage'', message_object userMessage),
                                (''assistantMessage'', message_object assistantMessage),
                                (''recommendations'', JArr (recommendations aiResponse))]\<rparr>,
                  d\<lparr>chats := save_loaded chat_id (bson_chat c4) (chats d)\<rparr>))))"

text \<open>\<open>PUT /api/chats/:chatId/title\<close>.\<close>

definition updateTitle ::
  "db \<Rightarrow> objectId \<Rightarrow> objectId \<Rightarrow> date \<Rightarrow> jsstring option \<Rightarrow> response \<times> db" where
  "updateTitle d uid chatId now title =
     (if falsy_str title \<or> trim (str_val title) = []
      then (error_response 400 ''Title is required'', d)
      else
        (case findOneAndUpdate (\<lambda>c. chat_id c = chatId \<and> chat_userId c = uid)
                (\<lambda>c. c\<lparr>chat_title := bson_string (trim (str_val title)),
                       chat_updatedAt := now\<rparr>) (chats d) of
           (None, cs) \<Rightarrow> (error_response 404 ''Chat not found'', d\<lparr>chats := cs\<rparr>)
         | (Some c, cs) \<Rightarrow>
             (\<lparr>status = 200,
               body = JObj [(''message'', JStr (ascii ''Chat title updated successfully'')),
                            (''chat'', chat_json c)]\<rparr>,
              d\<lparr>chats := cs\<rparr>)))"

text \<open>\<open>DELETE /api/chats/:chatId\<close>.\<close>

definition deleteChat :: "db \<Rightarrow> objectId \<Rightarrow> objectId \<Rightarrow> response \<times> db" where
  "deleteChat d uid chatId =
     (case findOneAndDelete (\<lambda>c. chat_id c = chatId \<and> chat_userId c = uid) (chats d) of
        (None, cs) \<Rightarrow> (error_response 404 ''Chat not found'', d\<lparr>chats := cs\<rparr>)
      | (Some c, cs) \<Rightarrow> (message_response ''Chat deleted successfully'', d\<lparr>chats := cs\<rparr>))"

section \<open>Profile and location routes\<close>

text \<open>
  \<open>GET /api/user/profile\<close>. When no document is found, reading \<open>user._id\<close> throws and the
  handler answers 500.
\<close>

definition getProfile :: "db \<Rightarrow> objectId \<Rightarrow> response \<times> db" where
  "getProfile d uid =
     (case map_option (select_minus ''password'' \<circ> user_doc)
             (findOne (\<lambda>u. user_id u = uid) (users d)) of
        None \<Rightarrow> (server_error, d)
      | Some doc \<Rightarrow>
          (\<lparr>status = 200,
            body = JObj ([(''id'', JId uid)] @
                         optional_field ''name'' (map_of doc ''name'') @
                         optional_field ''email'' (map_of doc ''email'') @
                         optional_field ''preferredLanguage'' (map_of doc ''preferredLanguage'') @
                         optional_field ''location'' (map_of doc ''location'') @
                         optional_field ''createdAt'' (map_of doc ''createdAt''))\<rparr>,
           d))"

text \<open>
  \<open>PUT /api/user/profile\<close>: a field the body does not have is left as it is. The answer is
  the changed document without its password, or \<open>null\<close> when there is none.
\<close>

definition updateProfile ::
  "db \<Rightarrow> objectId \<Rightarrow> jsstring option \<Rightarrow> jsstring option \<Rightarrow> response \<times> db" where
  "updateProfile d uid name preferredLanguage =
     (case findOneAndUpdate (\<lambda>u. user_id u = uid)
             (\<lambda>u. u\<lparr>user_name :=
                      (case name of None \<Rightarrow> user_name u | Some n \<Rightarrow> bson_string n),
                    user_preferredLanguage :=
                      (case preferredLanguage of
                         None \<Rightarrow> user_preferredLanguage u | Some l \<Rightarrow> bson_string l)\<rparr>)
             (users d) of
        (None, us) \<Rightarrow> (\<lparr>status = 200, body = JNull\<rparr>, d\<lparr>users := us\<rparr>)
      | (Some u, us) \<Rightarrow>
          (\<lparr>status = 200, body = JObj (select_minus ''password'' (user_doc u))\<rparr>,
           d\<lparr>users := us\<rparr>))"

text \<open>
  \<open>POST /api/user/location\<close>. The template literal turns the two numbers into strings with
  the engine's conversion.
\<close>

definition setLocation ::
  "library \<Rightarrow> db \<Rightarrow> objectId \<Rightarrow> date \<Rightarrow> jsnum option \<Rightarrow> jsnum option \<Rightarrow> jsstring option \<Rightarrow>
   response \<times> db" where
  "setLocation L d uid now latitude longitude address =
     (if falsy_num latitude \<or> falsy_num longitude
      then (error_response 400 ''Latitude and longitude are required'', d)
      else
        (case findOneAndUpdate (\<lambda>u. user_id u = uid)
                (\<lambda>u. u\<lparr>user_location := Some
                   \<lparr>loc_latitude = num_val latitude,
                    loc_longitude = num_val longitude,
                    loc_address =
                      bson_string
                        (if falsy_str address
                         then number_to_string L (num_val latitude) @ ascii '', '' @
                              number_to_string L (num_val longitude)
                         else str_val address),
                    loc_lastUpdated = now\<rparr>\<rparr>)
                (users d) of
           (None, us) \<Rightarrow> (server_error, d\<lparr>users := us\<rparr>)
         | (Some u, us) \<Rightarrow>
             (\<lparr>status = 200,
               body = JObj ([(''message'', JStr (ascii ''Location saved successfully''))] @
                            optional_field ''location''
                              (map_option location_json (user_location u)))\<rparr>,
              d\<lparr>users := us\<rparr>)))"

text \<open>\<open>GET /api/user/location\<close>.\<close>

definition getLocation :: "db \<Rightarrow> objectId \<Rightarrow> response \<times> db" where
  "getLocation d uid =
     (case findOne (\<lambda>u. user_id u = uid) (users d) of
        None \<Rightarrow> (server_error, d)
      | Some u \<Rightarrow>
          (case user_location u of
             None \<Rightarrow> (error_response 404 ''No location data found'', d)
           | Some l \<Rightarrow>
               if loc_latitude l = Finite 0
               then (error_response 404 ''No location data found'', d)
               else (\<lparr>status = 200, body = location_json l\<rparr>, d)))"

text \<open>\<open>DELETE /api/user/location\<close>.\<close>

definition deleteLocation :: "db \<Rightarrow> objectId \<Rightarrow> response \<times> db" where
  "deleteLocation d uid =
     (case findOneAndUpdate (\<lambda>u. user_id u = uid) (\<lambda>u. u\<lparr>user_location := None\<rparr>) (users d) of
        (_, us) \<Rightarrow> (message_response ''Location data deleted successfully'', d\<lparr>users := us\<rparr>))"

text \<open>\<open>GET /api/health\<close>.\<close>

definition health :: response where
  "health = message_response ''Server is running!''"

section \<open>The router\<close>

text \<open>
  A request names its route and carries the fields of its body. \<open>inputs\<close> are the values a
  request draws from outside the program: the salt, the identifier of a new document and
  the readings of the clock. Register, login and the health check are open; every other
  route runs behind the gate. \<open>route\<close> dispatches the gated routes for the user the gate
  passed on; \<open>handle\<close> never calls it with an open route, and its last equation only makes
  it total.
\<close>

datatype request =
    Register "jsvalue option" "jsvalue option" "jsvalue option"
  | Login "jsstring option" "jsstring option"
  | ListChats
  | CreateChat
  | GetChat objectId
  | PostMessage objectId "jsstring option"
  | UpdateTitle objectId "jsstring option"
  | DeleteChat objectId
  | GetProfile
  | UpdateProfile "jsstring option" "jsstring option"
  | SetLocation "jsnum option" "jsnum option" "jsstring option"
  | GetLocation
  | DeleteLocation
  | Health

record inputs =
  in_salt :: jsstring
  in_newId :: objectId
  in_t1 :: date
  in_t2 :: date
  in_t3 :: date

fun route :: "library \<Rightarrow> inputs \<Rightarrow> db \<Rightarrow> objectId \<Rightarrow> request \<Rightarrow> response \<times> db" where
  "route L i d uid ListChats = listChats d uid"
| "route L i d uid CreateChat = createChat d uid (in_newId i) (in_t1 i)"
| "route L i d uid (GetChat chatId) = getChat d uid chatId"
| "route L i d uid (PostMessage chatId message) =
     postMessage L d uid chatId (in_t1 i) (in_t2 i) (in_t3 i) message"
| "route L i d uid (UpdateTitle chatId title) = updateTitle d uid chatId (in_t1 i) title"
| "route L i d uid (DeleteChat chatId) = deleteChat d uid chatId"
| "route L i d uid GetProfile = getProfile d uid"
| "route L i d uid (UpdateProfile name preferredLanguage) =
     updateProfile d uid name preferredLanguage"
| "route L i d uid (SetLocation latitude longitude address) =
     setLocation L d uid (in_t1 i) latitude longitude address"
| "route L i d uid GetLocation = getLocation d uid"
| "route L i d uid DeleteLocation = deleteLocation d uid"
| "route L i d uid _ = (server_error, d)"

fun handle ::
  "library \<Rightarrow> jsstring option \<Rightarrow> inputs \<Rightarrow> db \<Rightarrow> jsstring option \<Rightarrow> request \<Rightarrow> response \<times> db" where
  "handle L env_JWT_SECRET i d authorization (Register name email password) =
     register L env_JWT_SECRET d (in_salt i) (in_newId i) (in_t1 i) name email password"
| "handle L env_JWT_SECRET i d authorization (Login email password) =
     login L env_JWT_SECRET d email password"
| "handle L env_JWT_SECRET i d authorization Health = (health, d)"
| "handle L env_JWT_SECRET i d authorization req =
     (case authMiddleware L env_JWT_SECRET d authorization of
        Inl r \<Rightarrow> (r, d)
      | Inr u \<Rightarrow> route L i d (user_id u) req)"

text \<open>The states of the store that requests can lead to, from the empty store.\<close>

inductive reachable :: "library \<Rightarrow> jsstring option \<Rightarrow> db \<Rightarrow> bool"
  for L :: library and env_JWT_SECRET :: "jsstring option" where
  reachable_empty: "reachable L env_JWT_SECRET empty_db"
| reachable_step:
    "reachable L env_JWT_SECRET d \<Longrightarrow>
     reachable L env_JWT_SECRET (snd (handle L env_JWT_SECRET i d authorization req))"

text \<open>
  The shape the message handler builds: the messages of a chat come in pairs, a message of
  the user and then one of the assistant, with the same language.
\<close>

fun paired :: "message list \<Rightarrow> bool" where
  "paired [] = True"
| "paired [m] = False"
| "paired (u # a # ms) =
     (msg_role u = User \<and> msg_role a = Assistant \<and> msg_language u = msg_language a \<and> paired ms)"

text \<open>The requests of the chat routes.\<close>

fun is_chat_request :: "request \<Rightarrow> bool" where
  "is_chat_request ListChats = True"
| "is_chat_request CreateChat = True"
| "is_chat_request (GetChat chatId) = True"
| "is_chat_request (PostMessage chatId message) = True"
| "is_chat_request (UpdateTitle chatId title) = True"
| "is_chat_request (DeleteChat chatId) = True"
| "is_chat_request _ = False"

text \<open>All values inside a JSON value, the value itself among them.\<close>

fun json_parts :: "json \<Rightarrow> json list" where
  "json_parts (JArr xs) = JArr xs # concat (map json_parts xs)"
| "json_parts (JObj kvs) = JObj kvs # concat (map (\<lambda>kv. json_parts (snd kv)) kvs)"
| "json_parts v = [v]"

text \<open>A JSON value shows a chat when the document of the chat or its summary is inside it.\<close>

definition shows_chat :: "chat \<Rightarrow> json \<Rightarrow> bool" where
  "shows_chat c j = (chat_json c \<in> set (json_parts j) \<or> chat_summary c \<in> set (json_parts j))"

text \<open>
  The invariant of the chat collection: identifiers are distinct, the messages of every
  chat come in pairs, and every message is as the store encodes it.
\<close>

definition chats_ok :: "chat list \<Rightarrow> bool" where
  "chats_ok cs =
     (distinct (map chat_id cs) \<and>
      list_all (\<lambda>c. paired (chat_messages c)) cs \<and>
      list_all (\<lambda>c. map bson_message (chat_messages c) = chat_messages c) cs)"

text \<open>A response without a \<open>password\<close> key at any depth of its body.\<close>

definition no_password :: "response \<Rightarrow> bool" where
  "no_password r = (''password'' \<notin> set (json_keys (body r)))"

section \<open>What the handlers write\<close>

text \<open>
  The chat a successful exchange writes to the store: the chat as the handler built it
  (the two new messages, the title, the time of the update), encoded.
\<close>

definition exchanged :: "library \<Rightarrow> chat \<Rightarrow> date \<Rightarrow> date \<Rightarrow> date \<Rightarrow> jsstring \<Rightarrow> chat" where
  "exchanged L c t1 t2 t3 m =
     bson_chat
       (c\<lparr>chat_messages := chat_messages c @
            [\<lparr>msg_role = User, msg_content = trim m, msg_timestamp = t1,
              msg_language = detectLanguage m\<rparr>,
             \<lparr>msg_role = Assistant,
              msg_content = content (generateAIResponse (lib_unicodeLower L) m (detectLanguage m)),
              msg_timestamp = t2, msg_language = detectLanguage m\<rparr>],
          chat_title := (if chat_messages c = []
                         then take 50 m @ (if 50 < length m then ascii ''...'' else [])
                         else chat_title c),
          chat_updatedAt := t3\<rparr>)"

section \<open>Sample data\<close>

text \<open>
  Concrete inputs for the examples below: stand-ins for the libraries, two users, a
  store with an empty chat of the first user, and two messages whose 50th code unit is the
  first half of U+1F370.
\<close>

definition stub_library :: library where
  "stub_library =
     \<lparr>lib_isEmail = (\<lambda>e. 0x40 \<in> set e),
      lib_bcrypt_hash = (\<lambda>p s. s @ rev p),
      lib_bcrypt_compare = (\<lambda>p h. False),
      lib_jwt_sign = (\<lambda>u s e. s @ e),
      lib_jwt_verify = (\<lambda>t s. if t = ascii ''token-of-10'' then Some 10 else None),
      lib_unicodeLower = (\<lambda>s. s),
      lib_numberToString = (\<lambda>x. ascii ''0''),
      lib_castString = (\<lambda>v. None),
      lib_lessThan6 = (\<lambda>v. Some False)\<rparr>"

definition alice :: user where
  "alice = \<lparr>user_id = 10, user_name = ascii ''Alice'', user_email = ascii ''alice@example.org'',
             user_password = ascii ''$2a$10$stored'', user_preferredLanguage = ascii ''en'',
             user_location = None, user_createdAt = 100\<rparr>"

definition bob :: user where
  "bob = \<lparr>user_id = 20, user_name = ascii ''Bob'', user_email = ascii ''bob@example.org'',
           user_password = ascii ''$2a$10$other'', user_preferredLanguage = ascii ''en'',
           user_location = None, user_createdAt = 200\<rparr>"

definition alice_chat :: chat where
  "alice_chat = \<lparr>chat_id = 1, chat_userId = 10, chat_title = ascii ''New Chat'',
                  chat_messages = [], chat_createdAt = 300, chat_updatedAt = 300\<rparr>"

definition sample_db :: db where
  "sample_db = \<lparr>users = [alice, bob], chats = [alice_chat]\<rparr>"

definition cake_message :: jsstring where
  "cake_message =
     ascii ''aaaaaaaaaaaaaaaaaaaaaaaaaaaaaaaaaaaaaaaaaaaaaaaaa'' @ [0xD83C, 0xDF70]"

definition cake_b_message :: jsstring where
  "cake_b_message = cake_message @ ascii ''b''"

text \<open>
  A store reached by two requests from the empty store: the first user registers and,
  with her token, creates a chat.
\<close>

definition registered_db :: db where
  "registered_db =
     snd (handle stub_library None
            \<lparr>in_salt = ascii ''salt'', in_newId = 10, in_t1 = 100, in_t2 = 100, in_t3 = 100\<rparr>
            empty_db None
            (Register (Some (VStr (ascii ''Alice''))) (Some (VStr (ascii ''alice@example.org'')))
               (Some (VStr (ascii ''secret1'')))))"

definition chat_db :: db where
  "chat_db =
     snd (handle stub_library None
            \<lparr>in_salt = [], in_newId = 1, in_t1 = 300, in_t2 = 300, in_t3 = 300\<rparr>
            registered_db (Some (ascii ''Bearer token-of-10'')) CreateChat)"

section \<open>Facts about strings\<close>

lemma ascii_append: "ascii (a @ b) = ascii a @ ascii b"
  by (simp add: ascii_def)

lemma includes_str_iff: "includes_str s t \<longleftrightarrow> (\<exists>p q. s = p @ t @ q)"
  by (simp add: includes_str_def sublist_def)

lemma lower_cheesecake:
  "toLowerCase f (ascii ''I want cheesecake'') = ascii ''i want '' @ ascii ''cheesecake'' @ []"
  by (simp add: toLowerCase_def ascii_def asciiLower_def)

lemma cheesecake_content_split:
  "cheesecake_content =
     (ascii ''I found several great places for cheesecake near you! Here are the top recommendations:'' @
      [0x0A, 0x0A, 0xD83C, 0xDF70] @ ascii '' **'') @
     ascii ''Sweet Dreams Bakery'' @
     (ascii ''** - 2.3 miles away'' @
      [0x0A] @
      ascii ''- Fresh New York style cheesecake'' @
      [0x0A] @
      ascii ''- Rating: 4.8/5'' @
      [0x0A] @
      ascii ''- Special offer: 20% off today!'' @
      [0x0A, 0x0A, 0xD83C, 0xDF70] @
      ascii '' **Cafe Delight** - 1.8 miles away'' @
      [0x0A] @
      ascii ''- Artisanal cheesecakes'' @
      [0x0A] @
      ascii ''- Rating: 4.6/5'' @
      [0x0A] @
      ascii ''- Free delivery on orders over $25'')"
proof -
  have "ascii '' **Sweet Dreams Bakery** - 2.3 miles away'' =
        ascii '' **'' @ ascii ''Sweet Dreams Bakery'' @ ascii ''** - 2.3 miles away''"
    unfolding ascii_append [symmetric] by simp
  then show ?thesis unfolding cheesecake_content_def by simp
qed

section \<open>Language detection and the response generator\<close>

text \<open>
  Claim C4. For every text, language detection answers \<open>bn\<close> when some code unit of the
  text is in the Bengali range, otherwise \<open>ar\<close> when one is in the Arabic range, otherwise
  \<open>zh\<close> when one is in the CJK range, otherwise \<open>en\<close>: the patterns are tried in this
  order and the first match wins. The four texts of the specification (U+0622 U+0633
  U+0641, U+4F60 U+597D, U+0986 U+09AE U+09BF and \<open>hello\<close>) give \<open>ar\<close>, \<open>zh\<close>, \<open>bn\<close> and
  \<open>en\<close>.
\<close>

theorem detectLanguage_first_match:
  "detectLanguage t =
     (if \<exists>u \<in> set t. 0x0980 \<le> u \<and> u \<le> 0x09FF then ascii ''bn''
      else if \<exists>u \<in> set t. 0x0600 \<le> u \<and> u \<le> 0x06FF then ascii ''ar''
      else if \<exists>u \<in> set t. 0x4E00 \<le> u \<and> u \<le> 0x9FFF then ascii ''zh''
      else ascii ''en'') \<and>
   detectLanguage [0x0622, 0x0633, 0x0641] = ascii ''ar'' \<and>
   detectLanguage [0x4F60, 0x597D] = ascii ''zh'' \<and>
   detectLanguage [0x0986, 0x09AE, 0x09BF] = ascii ''bn'' \<and>
   detectLanguage (ascii ''hello'') = ascii ''en''"
proof -
  have general: "detectLanguage t =
     (if \<exists>u \<in> set t. 0x0980 \<le> u \<and> u \<le> 0x09FF then ascii ''bn''
      else if \<exists>u \<in> set t. 0x0600 \<le> u \<and> u \<le> 0x06FF then ascii ''ar''
      else if \<exists>u \<in> set t. 0x4E00 \<le> u \<and> u \<le> 0x9FFF then ascii ''zh''
      else ascii ''en'')"
    unfolding detectLanguage_def banglaPattern_def arabicPattern_def chinesePattern_def
      list_ex_iff by (rule refl)
  have ar: "detectLanguage [0x0622, 0x0633, 0x0641] = ascii ''ar''"
    by (simp add: detectLanguage_def banglaPattern_def arabicPattern_def)
  have zh: "detectLanguage [0x4F60, 0x597D] = ascii ''zh''"
    by (simp add: detectLanguage_def banglaPattern_def arabicPattern_def chinesePattern_def)
  have bn: "detectLanguage [0x0986, 0x09AE, 0x09BF] = ascii ''bn''"
    by (simp add: detectLanguage_def banglaPattern_def)
  have en: "detectLanguage (ascii ''hello'') = ascii ''en''"
    by (simp add: detectLanguage_def banglaPattern_def arabicPattern_def chinesePattern_def
        ascii_def)
  from general ar zh bn en show ?thesis by blast
qed

text \<open>
  Claim C5. For the message \<open>I want cheesecake\<close> the response generator returns a content
  that contains \<open>Sweet Dreams Bakery\<close> and a list of exactly two recommendations, whatever
  the language argument and the engine's case table are.
\<close>

theorem cheesecake_response:
  "(\<exists>p q. content (generateAIResponse f (ascii ''I want cheesecake'') l) =
            p @ ascii ''Sweet Dreams Bakery'' @ q) \<and>
   includes_str (content (generateAIResponse f (ascii ''I want cheesecake'') l))
     (ascii ''Sweet Dreams Bakery'') \<and>
   length (recommendations (generateAIResponse f (ascii ''I want cheesecake'') l)) = 2"
proof -
  have hit: "includes_str (toLowerCase f (ascii ''I want cheesecake'')) (ascii ''cheesecake'')"
    unfolding includes_str_iff lower_cheesecake by blast
  then have resp: "generateAIResponse f (ascii ''I want cheesecake'') l =
      \<lparr>content = cheesecake_content, recommendations = cheesecake_recommendations\<rparr>"
    by (simp add: generateAIResponse_def)
  have ex: "\<exists>p q. cheesecake_content = p @ ascii ''Sweet Dreams Bakery'' @ q"
    using cheesecake_content_split by blast
  then have inc: "includes_str cheesecake_content (ascii ''Sweet Dreams Bakery'')"
    by (simp add: includes_str_iff)
  have len: "length cheesecake_recommendations = 2"
    by (simp add: cheesecake_recommendations_def)
  from resp ex inc len show ?thesis by simp
qed

text \<open>
  Claim C9. The response generator does not use its language argument: for every message
  and any two languages the two results are equal. The result is a function of the
  lower-cased message alone (two messages with the same lower-cased text get the same
  result, whatever the languages), and the content is one of the four fixed English
  texts.
\<close>

theorem generateAIResponse_ignores_language:
  "generateAIResponse f m l1 = generateAIResponse f m l2 \<and>
   (toLowerCase f m = toLowerCase f m' \<longrightarrow>
      generateAIResponse f m l1 = generateAIResponse f m' l2) \<and>
   content (generateAIResponse f m l1) \<in>
     {cheesecake_content, deals_content, restaurant_content, default_content}"
  by (simp add: generateAIResponse_def Let_def)

theorem generateAIResponse_ignores_language_witness:
  "toLowerCase id (ascii ''Any Deal?'') = toLowerCase id (ascii ''ANY DEAL?'') \<and>
   generateAIResponse id (ascii ''Any Deal?'') (ascii ''ar'') =
     generateAIResponse id (ascii ''ANY DEAL?'') (ascii ''zh'') \<and>
   generateAIResponse id (ascii ''Any Deal?'') (ascii ''ar'') =
     generateAIResponse id (ascii ''Any Deal?'') (ascii ''en'')"
proof -
  have same: "toLowerCase id (ascii ''Any Deal?'') = toLowerCase id (ascii ''ANY DEAL?'')"
    by (simp add: toLowerCase_def ascii_def asciiLower_def)
  with generateAIResponse_ignores_language
         [of id "ascii ''Any Deal?''" "ascii ''ar''" "ascii ''zh''" "ascii ''ANY DEAL?''"]
       generateAIResponse_ignores_language
         [of id "ascii ''Any Deal?''" "ascii ''ar''" "ascii ''en''" "ascii ''ANY DEAL?''"]
  show ?thesis by blast
qed

section \<open>Facts about the store\<close>

lemma findOne_SomeD: "findOne p xs = Some x \<Longrightarrow> x \<in> set xs \<and> p x"
  by (auto simp: findOne_def find_Some_iff)

lemma findOne_None_iff: "findOne p xs = None \<longleftrightarrow> (\<forall>x \<in> set xs. \<not> p x)"
  by (auto simp: findOne_def find_None_iff)

lemma findOne_unique:
  assumes "distinct (map ident xs)" and "c \<in> set xs" and "q c"
  shows "findOne (\<lambda>x. ident x = ident c \<and> q x) xs = Some c"
  using assms
proof (induction xs)
  case Nil
  then show ?case by simp
next
  case (Cons x xs)
  show ?case
  proof (cases "x = c")
    case True
    with Cons.prems show ?thesis by (simp add: findOne_def)
  next
    case False
    with Cons.prems have "c \<in> set xs" and "ident x \<noteq> ident c"
      by (auto simp: image_iff)
    with Cons show ?thesis by (simp add: findOne_def)
  qed
qed

lemma findOne_other:
  assumes "distinct (map ident xs)" and "c \<in> set xs" and "\<not> q c"
  shows "findOne (\<lambda>x. ident x = ident c \<and> q x) xs = None"
proof -
  have "\<not> q x" if "x \<in> set xs" and "ident x = ident c" for x
  proof -
    from assms(1) that assms(2) have "x = c"
      by (meson distinct_map inj_onD)
    with assms(3) show ?thesis by simp
  qed
  then show ?thesis by (auto simp: findOne_None_iff)
qed

lemma update_first_none: "\<forall>x \<in> set xs. \<not> p x \<Longrightarrow> update_first p f xs = xs"
  by (induction xs) auto

lemma delete_first_none: "\<forall>x \<in> set xs. \<not> p x \<Longrightarrow> delete_first p xs = xs"
  by (induction xs) auto

lemma update_first_map:
  assumes "distinct (map ident xs)"
  shows "update_first (\<lambda>x. ident x = k \<and> q x) f xs =
         map (\<lambda>x. if ident x = k \<and> q x then f x else x) xs"
  using assms
proof (induction xs)
  case Nil
  then show ?case by simp
next
  case (Cons x xs)
  show ?case
  proof (cases "ident x = k \<and> q x")
    case True
    from Cons.prems have "ident x \<notin> ident ` set xs" by simp
    with True have "\<forall>y \<in> set xs. ident y \<noteq> k" by blast
    then have "map (\<lambda>x. if ident x = k \<and> q x then f x else x) xs = xs"
      by (simp add: map_idI)
    with True show ?thesis by simp
  next
    case False
    with Cons show ?thesis by auto
  qed
qed

lemma save_loaded_map:
  assumes "distinct (map ident xs)"
  shows "save_loaded ident doc xs = map (\<lambda>x. if ident x = ident doc then doc else x) xs"
  using update_first_map [OF assms, of "ident doc" "\<lambda>_. True" "\<lambda>_. doc"]
  by (simp add: save_loaded_def)

lemma findOne_after_replace:
  assumes "c \<in> set xs" and "ident c = k" and "ident c' = k" and "q c'"
  shows "findOne (\<lambda>x. ident x = k \<and> q x) (map (\<lambda>x. if ident x = k then c' else x) xs) = Some c'"
  using assms(1)
proof (induction xs)
  case Nil
  then show ?case by simp
next
  case (Cons x xs)
  then show ?case using assms(2-)
    by (cases "ident x = k") (auto simp: findOne_def)
qed

text \<open>The encoding of the store.\<close>

lemma lone_plain: "\<not> is_high (lone u) \<and> \<not> is_low (lone u)"
  by (simp add: lone_def is_high_def is_low_def)

lemma lone_lone: "lone (lone u) = lone u"
  using lone_plain [of u] by (simp add: lone_def [of "lone u"])

lemma bson_string_plain: "\<not> is_high x \<Longrightarrow> bson_string (x # ys) = lone x # bson_string ys"
  by (cases ys) simp_all

lemma bson_string_idem: "bson_string (bson_string s) = bson_string s"
proof (induction s rule: bson_string.induct)
  case 1
  show ?case by simp
next
  case (2 u)
  show ?case by (simp add: lone_lone)
next
  case (3 u v s)
  show ?case
  proof (cases "is_high u \<and> is_low v")
    case True
    with 3 show ?thesis by simp
  next
    case False
    then have step: "bson_string (u # v # s) = lone u # bson_string (v # s)" by auto
    from False 3 have "bson_string (bson_string (v # s)) = bson_string (v # s)" by blast
    then show ?thesis
      unfolding step using lone_plain [of u] by (simp add: bson_string_plain lone_lone)
  qed
qed

lemma bson_string_detectLanguage: "bson_string (detectLanguage m) = detectLanguage m"
  by (simp add: detectLanguage_def ascii_def lone_def is_high_def is_low_def)

lemma bson_message_simps [simp]:
  "msg_role (bson_message m) = msg_role m"
  "msg_timestamp (bson_message m) = msg_timestamp m"
  "msg_content (bson_message m) = bson_string (msg_content m)"
  "msg_language (bson_message m) = bson_string (msg_language m)"
  by (simp_all add: bson_message_def)

lemma bson_message_idem: "bson_message (bson_message m) = bson_message m"
  by (simp add: bson_message_def bson_string_idem)

lemma bson_chat_simps [simp]:
  "chat_id (bson_chat c) = chat_id c"
  "chat_userId (bson_chat c) = chat_userId c"
  "chat_createdAt (bson_chat c) = chat_createdAt c"
  "chat_updatedAt (bson_chat c) = chat_updatedAt c"
  "chat_title (bson_chat c) = bson_string (chat_title c)"
  "chat_messages (bson_chat c) = map bson_message (chat_messages c)"
  by (simp_all add: bson_chat_def)

lemma exchanged_simps [simp]:
  "chat_id (exchanged L c t1 t2 t3 m) = chat_id c"
  "chat_userId (exchanged L c t1 t2 t3 m) = chat_userId c"
  by (simp_all add: exchanged_def)

lemma postMessage_found:
  assumes "findOne (\<lambda>c. chat_id c = chatId \<and> chat_userId c = uid) (chats d) = Some c"
    and "trim m \<noteq> []"
  shows "snd (postMessage L d uid chatId t1 t2 t3 (Some m)) =
           d\<lparr>chats := save_loaded chat_id (exchanged L c t1 t2 t3 m) (chats d)\<rparr>"
    and "status (fst (postMessage L d uid chatId t1 t2 t3 (Some m))) = 200"
proof -
  from assms(2) have "m \<noteq> []" by (auto simp: trim_def)
  with assms show "snd (postMessage L d uid chatId t1 t2 t3 (Some m)) =
           d\<lparr>chats := save_loaded chat_id (exchanged L c t1 t2 t3 m) (chats d)\<rparr>"
    by (simp add: postMessage_def falsy_str_def str_val_def Let_def exchanged_def substring0_def)
  from assms \<open>m \<noteq> []\<close> show "status (fst (postMessage L d uid chatId t1 t2 t3 (Some m))) = 200"
    by (simp add: postMessage_def falsy_str_def str_val_def Let_def)
qed

lemma postMessage_stored:
  assumes "distinct (map chat_id (chats d))"
    and "c \<in> set (chats d)" and "chat_userId c = uid"
    and "trim m \<noteq> []"
  shows "findOne (\<lambda>x. chat_id x = chat_id c \<and> chat_userId x = uid)
           (chats (snd (postMessage L d uid (chat_id c) t1 t2 t3 (Some m)))) =
         Some (exchanged L c t1 t2 t3 m)"
proof -
  have found: "findOne (\<lambda>x. chat_id x = chat_id c \<and> chat_userId x = uid) (chats d) = Some c"
    using findOne_unique [OF assms(1) assms(2), of "\<lambda>x. chat_userId x = uid"] assms(3) by simp
  have id: "chat_id (exchanged L c t1 t2 t3 m) = chat_id c"
    and own: "chat_userId (exchanged L c t1 t2 t3 m) = uid"
    using assms(3) by (simp_all add: exchanged_def)
  show ?thesis
    unfolding postMessage_found(1) [OF found assms(4)]
    using findOne_after_replace [OF assms(2) refl id, of "\<lambda>x. chat_userId x = uid"] own
    by (simp add: save_loaded_map [OF assms(1)] id)
qed

lemma update_first_ident:
  "(\<And>x. x \<in> set xs \<Longrightarrow> p x \<Longrightarrow> ident (f x) = ident x) \<Longrightarrow>
   map ident (update_first p f xs) = map ident xs"
  by (induction xs) auto

lemma findOne_after_map:
  assumes "distinct (map ident xs)" and "c \<in> set xs" and "q c"
    and "ident (f c) = ident c" and "q (f c)"
  shows "findOne (\<lambda>x. ident x = ident c \<and> q x)
           (map (\<lambda>x. if ident x = ident c \<and> q x then f x else x) xs) = Some (f c)"
  using assms(1,2)
proof (induction xs)
  case Nil
  then show ?case by simp
next
  case (Cons x xs)
  show ?case
  proof (cases "x = c")
    case True
    with assms(3-) show ?thesis by (simp add: findOne_def)
  next
    case False
    with Cons.prems have "c \<in> set xs" and "ident x \<noteq> ident c"
      by (auto simp: image_iff)
    with Cons show ?thesis by (simp add: findOne_def)
  qed
qed

lemma updateTitle_found:
  assumes "findOne (\<lambda>c. chat_id c = chatId \<and> chat_userId c = uid) (chats d) = Some c"
    and "trim t \<noteq> []"
  shows "updateTitle d uid chatId now (Some t) =
           (\<lparr>status = 200,
             body = JObj [(''message'', JStr (ascii ''Chat title updated successfully'')),
                          (''chat'', chat_json (c\<lparr>chat_title := bson_string (trim t),
                                                chat_updatedAt := now\<rparr>))]\<rparr>,
            d\<lparr>chats := update_first (\<lambda>c. chat_id c = chatId \<and> chat_userId c = uid)
                  (\<lambda>c. c\<lparr>chat_title := bson_string (trim t), chat_updatedAt := now\<rparr>)
                  (chats d)\<rparr>)"
proof -
  from assms(2) have "t \<noteq> []" by (auto simp: trim_def)
  with assms show ?thesis
    by (simp add: updateTitle_def falsy_str_def str_val_def findOneAndUpdate_def)
qed

lemma updateTitle_stored:
  assumes "distinct (map chat_id (chats d))"
    and "c \<in> set (chats d)" and "chat_userId c = uid"
    and "trim t \<noteq> []"
  shows "findOne (\<lambda>x. chat_id x = chat_id c \<and> chat_userId x = uid)
           (chats (snd (updateTitle d uid (chat_id c) now (Some t)))) =
         Some (c\<lparr>chat_title := bson_string (trim t), chat_updatedAt := now\<rparr>)"
    and "distinct (map chat_id (chats (snd (updateTitle d uid (chat_id c) now (Some t)))))"
proof -
  let ?P = "\<lambda>x. chat_id x = chat_id c \<and> chat_userId x = uid"
  let ?f = "\<lambda>c. c\<lparr>chat_title := bson_string (trim t), chat_updatedAt := now\<rparr>"
  have found: "findOne ?P (chats d) = Some c"
    using findOne_unique [OF assms(1) assms(2), of "\<lambda>x. chat_userId x = uid"] assms(3) by simp
  have d': "chats (snd (updateTitle d uid (chat_id c) now (Some t))) = update_first ?P ?f (chats d)"
    by (simp add: updateTitle_found [OF found assms(4)])
  show "findOne ?P (chats (snd (updateTitle d uid (chat_id c) now (Some t)))) = Some (?f c)"
    unfolding d' update_first_map [OF assms(1)]
    using findOne_after_map [OF assms(1) assms(2), of "\<lambda>x. chat_userId x = uid" ?f] assms(3)
    by simp
  have "map chat_id (update_first ?P ?f (chats d)) = map chat_id (chats d)"
    by (rule update_first_ident) simp
  with assms(1) show "distinct (map chat_id (chats (snd (updateTitle d uid (chat_id c) now (Some t)))))"
    by (simp add: d')
qed

lemma trim_nonempty_examples:
  "trim (ascii ''hello'') \<noteq> []" "trim (ascii ''My plans'') \<noteq> []"
  by (simp_all add: trim_def ascii_def isWhiteSpace_def)

section \<open>The title of a chat\<close>

text \<open>
  What a message exchange does to the stored chat, in a store whose chats have distinct
  identifiers, for a chat \<open>c\<close> of the caller and a message \<open>m\<close> that is not empty after
  trimming: the chat has two more messages; when it then has exactly two, its title is
  what the store keeps of the first 50 code units of \<open>m\<close>, followed by \<open>...\<close> when \<open>m\<close> has
  more than 50; when it has more than two, the assignment of the title is skipped.
\<close>

lemma postMessage_title_stored:
  assumes "distinct (map chat_id (chats d))"
    and "c \<in> set (chats d)" and "chat_userId c = uid"
    and "trim m \<noteq> []"
  shows "\<exists>c'. findOne (\<lambda>x. chat_id x = chat_id c \<and> chat_userId x = uid)
                (chats (snd (postMessage L d uid (chat_id c) t1 t2 t3 (Some m)))) = Some c' \<and>
              length (chat_messages c') = length (chat_messages c) + 2 \<and>
              (length (chat_messages c') = 2 \<longrightarrow>
                 chat_title c' =
                   bson_string (take 50 m @ (if 50 < length m then ascii ''...'' else []))) \<and>
              (2 < length (chat_messages c') \<longrightarrow> chat_title c' = bson_string (chat_title c))"
proof -
  have "findOne (\<lambda>x. chat_id x = chat_id c \<and> chat_userId x = uid)
          (chats (snd (postMessage L d uid (chat_id c) t1 t2 t3 (Some m)))) =
        Some (exchanged L c t1 t2 t3 m)"
    using assms by (rule postMessage_stored)
  moreover have "length (chat_messages (exchanged L c t1 t2 t3 m)) = length (chat_messages c) + 2"
    by (simp add: exchanged_def)
  moreover have "length (chat_messages (exchanged L c t1 t2 t3 m)) = 2 \<longrightarrow>
      chat_title (exchanged L c t1 t2 t3 m) =
        bson_string (take 50 m @ (if 50 < length m then ascii ''...'' else []))"
    by (simp add: exchanged_def)
  moreover have "2 < length (chat_messages (exchanged L c t1 t2 t3 m)) \<longrightarrow>
      chat_title (exchanged L c t1 t2 t3 m) = bson_string (chat_title c)"
    by (auto simp: exchanged_def)
  ultimately show ?thesis by blast
qed

lemma sample_chat_facts:
  "distinct (map chat_id (chats sample_db))"
  "alice_chat \<in> set (chats sample_db)"
  "chat_userId alice_chat = 10"
  "chat_id alice_chat = 1"
  "chat_messages alice_chat = []"
  by (simp_all add: sample_db_def alice_chat_def)

lemma cake_messages_accepted: "trim cake_message \<noteq> []" "trim cake_b_message \<noteq> []"
  by (simp_all add: cake_message_def cake_b_message_def trim_def ascii_def isWhiteSpace_def)

text \<open>
  Claim C3 says that the first exchange sets the title to the first 50 characters of the
  message, with \<open>...\<close> appended exactly when the message is longer. The handler cuts with
  \<open>substring(0, 50)\<close>, which counts code units. Take 49 letters \<open>a\<close>, then U+1F370 (two code
  units), then \<open>b\<close>: the cut keeps the first half of the pair, which the store cannot
  hold, and the title of the chat is 49 letters \<open>a\<close>, U+FFFD and \<open>...\<close>. That is neither
  the first 50 characters of the message followed by \<open>...\<close> (they end with U+1F370) nor
  its first 50 code units followed by \<open>...\<close>. Without the final \<open>b\<close> the message has 50
  characters, and its title is the same and not the message itself.
\<close>

theorem postMessage_title_splits_pair:
  "(\<exists>c'. findOne (\<lambda>x. chat_id x = 1 \<and> chat_userId x = 10)
            (chats (snd (postMessage stub_library sample_db 10 1 400 401 402
                           (Some cake_b_message)))) = Some c' \<and>
          length (chat_messages c') = 2 \<and>
          chat_title c' =
            ascii ''aaaaaaaaaaaaaaaaaaaaaaaaaaaaaaaaaaaaaaaaaaaaaaaaa'' @ [0xFFFD] @ ascii ''...'') \<and>
   (\<exists>c'. findOne (\<lambda>x. chat_id x = 1 \<and> chat_userId x = 10)
            (chats (snd (postMessage stub_library sample_db 10 1 400 401 402
                           (Some cake_message)))) = Some c' \<and>
          length (chat_messages c') = 2 \<and>
          chat_title c' =
            ascii ''aaaaaaaaaaaaaaaaaaaaaaaaaaaaaaaaaaaaaaaaaaaaaaaaa'' @ [0xFFFD] @ ascii ''...'') \<and>
   ascii ''aaaaaaaaaaaaaaaaaaaaaaaaaaaaaaaaaaaaaaaaaaaaaaaaa'' @ [0xFFFD] @ ascii ''...'' \<noteq>
     take 50 cake_b_message @ ascii ''...'' \<and>
   ascii ''aaaaaaaaaaaaaaaaaaaaaaaaaaaaaaaaaaaaaaaaaaaaaaaaa'' @ [0xFFFD] @ ascii ''...'' \<noteq>
     ascii ''aaaaaaaaaaaaaaaaaaaaaaaaaaaaaaaaaaaaaaaaaaaaaaaaa'' @ [0xD83C, 0xDF70] @ ascii ''...'' \<and>
   ascii ''aaaaaaaaaaaaaaaaaaaaaaaaaaaaaaaaaaaaaaaaaaaaaaaaa'' @ [0xFFFD] @ ascii ''...'' \<noteq>
     cake_message"
proof -
  let ?t = "ascii ''aaaaaaaaaaaaaaaaaaaaaaaaaaaaaaaaaaaaaaaaaaaaaaaaa'' @ [0xFFFD] @ ascii ''...''"
  have b: "bson_string (take 50 cake_b_message @
             (if 50 < length cake_b_message then ascii ''...'' else [])) = ?t"
    by (simp add: cake_b_message_def cake_message_def ascii_def lone_def is_high_def is_low_def)
  have a: "bson_string (take 50 cake_message @
             (if 50 < length cake_message then ascii ''...'' else [])) = ?t"
    by (simp add: cake_message_def ascii_def lone_def is_high_def is_low_def)
  have first: "\<exists>c'. findOne (\<lambda>x. chat_id x = 1 \<and> chat_userId x = 10)
            (chats (snd (postMessage stub_library sample_db 10 1 400 401 402
                           (Some cake_b_message)))) = Some c' \<and>
          length (chat_messages c') = 2 \<and> chat_title c' = ?t"
    using postMessage_title_stored
            [OF sample_chat_facts(1,2,3) cake_messages_accepted(2), of stub_library 400 401 402]
    unfolding sample_chat_facts(4,5) b by auto
  have second: "\<exists>c'. findOne (\<lambda>x. chat_id x = 1 \<and> chat_userId x = 10)
            (chats (snd (postMessage stub_library sample_db 10 1 400 401 402
                           (Some cake_message)))) = Some c' \<and>
          length (chat_messages c') = 2 \<and> chat_title c' = ?t"
    using postMessage_title_stored
            [OF sample_chat_facts(1,2,3) cake_messages_accepted(1), of stub_library 400 401 402]
    unfolding sample_chat_facts(4,5) a by auto
  have d1: "?t \<noteq> take 50 cake_b_message @ ascii ''...''"
    by (simp add: cake_b_message_def cake_message_def ascii_def)
  have d2: "?t \<noteq> ascii ''aaaaaaaaaaaaaaaaaaaaaaaaaaaaaaaaaaaaaaaaaaaaaaaaa'' @ [0xD83C, 0xDF70] @
               ascii ''...''"
    by (simp add: ascii_def)
  have d3: "?t \<noteq> cake_message"
    by (simp add: cake_message_def ascii_def)
  from first second d1 d2 d3 show ?thesis by blast
qed

text \<open>
  Claim C10. The title is derived whenever the exchange brings the chat to two messages,
  whatever title the chat has then. For a chat without messages, the update-title
  operation sets a custom title (and leaves the chat without messages), and the first
  message exchange after it replaces that title with the one the handler derives from the
  message: the first 50 code units of the message, followed by \<open>...\<close> when it has more,
  as the store keeps them.
\<close>

theorem first_exchange_overwrites_title:
  assumes "distinct (map chat_id (chats d))"
    and "c \<in> set (chats d)" and "chat_userId c = uid" and "chat_messages c = []"
    and "trim t \<noteq> []" and "trim m \<noteq> []"
  shows "\<exists>c1 c2.
           findOne (\<lambda>x. chat_id x = chat_id c \<and> chat_userId x = uid)
             (chats (snd (updateTitle d uid (chat_id c) now (Some t)))) = Some c1 \<and>
           chat_title c1 = bson_string (trim t) \<and> chat_messages c1 = [] \<and>
           findOne (\<lambda>x. chat_id x = chat_id c \<and> chat_userId x = uid)
             (chats (snd (postMessage L (snd (updateTitle d uid (chat_id c) now (Some t)))
                            uid (chat_id c) t1 t2 t3 (Some m)))) = Some c2 \<and>
           length (chat_messages c2) = 2 \<and>
           chat_title c2 =
             bson_string (take 50 m @ (if 50 < length m then ascii ''...'' else []))"
proof -
  let ?P = "\<lambda>x. chat_id x = chat_id c \<and> chat_userId x = uid"
  let ?d1 = "snd (updateTitle d uid (chat_id c) now (Some t))"
  let ?c1 = "c\<lparr>chat_title := bson_string (trim t), chat_updatedAt := now\<rparr>"
  have f1: "findOne ?P (chats ?d1) = Some ?c1"
    and dist1: "distinct (map chat_id (chats ?d1))"
    using assms(1,2,3,5) by (rule updateTitle_stored)+
  from f1 have in1: "?c1 \<in> set (chats ?d1)" by (auto dest: findOne_SomeD)
  have own1: "chat_userId ?c1 = uid" using assms(3) by simp
  have "findOne (\<lambda>x. chat_id x = chat_id ?c1 \<and> chat_userId x = uid)
          (chats (snd (postMessage L ?d1 uid (chat_id ?c1) t1 t2 t3 (Some m)))) =
        Some (exchanged L ?c1 t1 t2 t3 m)"
    using dist1 in1 own1 assms(6) by (rule postMessage_stored)
  then have f2: "findOne ?P (chats (snd (postMessage L ?d1 uid (chat_id c) t1 t2 t3 (Some m)))) =
        Some (exchanged L ?c1 t1 t2 t3 m)"
    by simp
  have "chat_title (exchanged L ?c1 t1 t2 t3 m) =
          bson_string (take 50 m @ (if 50 < length m then ascii ''...'' else []))"
    and "length (chat_messages (exchanged L ?c1 t1 t2 t3 m)) = 2"
    using assms(4) by (simp_all add: exchanged_def)
  with f1 f2 assms(4) show ?thesis by simp
qed

theorem first_exchange_overwrites_title_witness:
  "\<exists>c1 c2.
     findOne (\<lambda>x. chat_id x = 1 \<and> chat_userId x = 10)
       (chats (snd (updateTitle sample_db 10 1 350 (Some (ascii ''My plans''))))) = Some c1 \<and>
     chat_title c1 = ascii ''My plans'' \<and>
     findOne (\<lambda>x. chat_id x = 1 \<and> chat_userId x = 10)
       (chats (snd (postMessage stub_library
                      (snd (updateTitle sample_db 10 1 350 (Some (ascii ''My plans''))))
                      10 1 400 401 402 (Some (ascii ''hello''))))) = Some c2 \<and>
     chat_title c2 = ascii ''hello''"
proof -
  have short: "bson_string (take 50 (ascii ''hello'') @
      (if 50 < length (ascii ''hello'') then ascii ''...'' else [])) = ascii ''hello''"
    by (simp add: ascii_def lone_def is_high_def is_low_def)
  have tr: "bson_string (trim (ascii ''My plans'')) = ascii ''My plans''"
    by (simp add: trim_def ascii_def isWhiteSpace_def lone_def is_high_def is_low_def)
  from first_exchange_overwrites_title
         [OF sample_chat_facts(1,2,3,5) trim_nonempty_examples(2) trim_nonempty_examples(1),
          of 350 stub_library 400 401 402]
  show ?thesis unfolding sample_chat_facts(4) short tr by auto
qed

section \<open>Ownership of chats\<close>

lemma db_chats_same: "d\<lparr>chats := chats d\<rparr> = d"
  by simp

lemma filter_update_first:
  "(\<And>x. p x \<Longrightarrow> \<not> q x \<and> \<not> q (f x)) \<Longrightarrow> filter q (update_first p f xs) = filter q xs"
  by (induction xs) auto

lemma filter_delete_first:
  "(\<And>x. p x \<Longrightarrow> \<not> q x) \<Longrightarrow> filter q (delete_first p xs) = filter q xs"
  by (induction xs) auto

lemma getChat_other:
  assumes "distinct (map chat_id (chats d))" and "c \<in> set (chats d)" and "chat_userId c \<noteq> uid"
  shows "getChat d uid (chat_id c) = (error_response 404 ''Chat not found'', d)"
  using findOne_other [OF assms(1,2), of "\<lambda>x. chat_userId x = uid"] assms(3)
  by (simp add: getChat_def)

lemma deleteChat_other:
  assumes "distinct (map chat_id (chats d))" and "c \<in> set (chats d)" and "chat_userId c \<noteq> uid"
  shows "deleteChat d uid (chat_id c) = (error_response 404 ''Chat not found'', d)"
proof -
  have none: "findOne (\<lambda>x. chat_id x = chat_id c \<and> chat_userId x = uid) (chats d) = None"
    using findOne_other [OF assms(1,2), of "\<lambda>x. chat_userId x = uid"] assms(3) by simp
  then have "delete_first (\<lambda>x. chat_id x = chat_id c \<and> chat_userId x = uid) (chats d) = chats d"
    by (intro delete_first_none) (simp add: findOne_None_iff)
  with none show ?thesis by (simp add: deleteChat_def findOneAndDelete_def)
qed

lemma updateTitle_other:
  assumes "distinct (map chat_id (chats d))" and "c \<in> set (chats d)" and "chat_userId c \<noteq> uid"
    and "trim t \<noteq> []"
  shows "updateTitle d uid (chat_id c) now (Some t) = (error_response 404 ''Chat not found'', d)"
proof -
  from assms(4) have "t \<noteq> []" by (auto simp: trim_def)
  have none: "findOne (\<lambda>x. chat_id x = chat_id c \<and> chat_userId x = uid) (chats d) = None"
    using findOne_other [OF assms(1,2), of "\<lambda>x. chat_userId x = uid"] assms(3) by simp
  then have "update_first (\<lambda>x. chat_id x = chat_id c \<and> chat_userId x = uid) f (chats d) = chats d"
    for f
    by (intro update_first_none) (simp add: findOne_None_iff)
  with none assms(4) \<open>t \<noteq> []\<close> show ?thesis
    by (simp add: updateTitle_def findOneAndUpdate_def falsy_str_def str_val_def)
qed

lemma updateTitle_invalid:
  assumes "title = None \<or> trim (str_val title) = []"
  shows "updateTitle d uid chatId now title = (error_response 400 ''Title is required'', d)"
  using assms by (auto simp: updateTitle_def falsy_str_def)

lemma filter_map_replace:
  "\<forall>x \<in> set xs. p x \<longrightarrow> \<not> q x \<Longrightarrow> \<not> q y \<Longrightarrow>
   filter q (map (\<lambda>x. if p x then y else x) xs) = filter q xs"
  by (induction xs) auto

text \<open>Chats of other users stay as they are.\<close>

lemma listChats_others: "snd (listChats d uid) = d"
  by (simp add: listChats_def)

lemma getChat_others: "snd (getChat d uid chatId) = d"
  by (simp add: getChat_def split: option.splits)

lemma createChat_others:
  "filter (\<lambda>c. chat_userId c \<noteq> uid) (chats (snd (createChat d uid newId now))) =
   filter (\<lambda>c. chat_userId c \<noteq> uid) (chats d)"
  by (simp add: createChat_def save_new_def Let_def)

lemma updateTitle_others:
  "filter (\<lambda>c. chat_userId c \<noteq> uid) (chats (snd (updateTitle d uid chatId now title))) =
   filter (\<lambda>c. chat_userId c \<noteq> uid) (chats d)"
proof -
  have "filter (\<lambda>c. chat_userId c \<noteq> uid)
          (update_first (\<lambda>c. chat_id c = chatId \<and> chat_userId c = uid) f (chats d)) =
        filter (\<lambda>c. chat_userId c \<noteq> uid) (chats d)"
    if "\<And>x. chat_userId (f x) = chat_userId x" for f
    by (rule filter_update_first) (simp add: that)
  then show ?thesis
    by (simp add: updateTitle_def findOneAndUpdate_def split: option.splits)
qed

lemma deleteChat_others:
  "filter (\<lambda>c. chat_userId c \<noteq> uid) (chats (snd (deleteChat d uid chatId))) =
   filter (\<lambda>c. chat_userId c \<noteq> uid) (chats d)"
proof -
  have "filter (\<lambda>c. chat_userId c \<noteq> uid)
          (delete_first (\<lambda>c. chat_id c = chatId \<and> chat_userId c = uid) (chats d)) =
        filter (\<lambda>c. chat_userId c \<noteq> uid) (chats d)"
    by (rule filter_delete_first) simp
  then show ?thesis
    by (simp add: deleteChat_def findOneAndDelete_def split: option.splits)
qed

lemma postMessage_others:
  assumes "distinct (map chat_id (chats d))"
  shows "filter (\<lambda>c. chat_userId c \<noteq> uid) (chats (snd (postMessage L d uid chatId t1 t2 t3 message))) =
         filter (\<lambda>c. chat_userId c \<noteq> uid) (chats d)"
proof (cases "falsy_str message \<or> trim (str_val message) = []")
  case True
  then show ?thesis by (auto simp: postMessage_def)
next
  case False
  then obtain m where m: "message = Some m" "trim m \<noteq> []"
    by (cases message) (auto simp: falsy_str_def str_val_def)
  show ?thesis
  proof (cases "findOne (\<lambda>c. chat_id c = chatId \<and> chat_userId c = uid) (chats d)")
    case None
    with False show ?thesis by (simp add: postMessage_def)
  next
    case (Some c)
    then have c: "c \<in> set (chats d)" "chat_id c = chatId" "chat_userId c = uid"
      by (auto dest: findOne_SomeD)
    have id: "chat_id (exchanged L c t1 t2 t3 m) = chatId"
      and own: "chat_userId (exchanged L c t1 t2 t3 m) = uid"
      using c by (simp_all add: exchanged_def)
    have "chat_userId x = uid" if "x \<in> set (chats d)" and "chat_id x = chatId" for x
    proof -
      from assms that c(1,2) have "x = c" by (metis distinct_map inj_onD)
      with c(3) show ?thesis by simp
    qed
    then have "filter (\<lambda>c. chat_userId c \<noteq> uid)
        (map (\<lambda>x. if chat_id x = chatId then exchanged L c t1 t2 t3 m else x) (chats d)) =
      filter (\<lambda>c. chat_userId c \<noteq> uid) (chats d)"
      using own by (intro filter_map_replace) auto
    then show ?thesis
      unfolding m postMessage_found(1) [OF Some m(2)]
      by (simp add: save_loaded_map [OF assms] c(2))
  qed
qed

lemma shows_chat_error [simp]: "\<not> shows_chat c (body (error_response n msg))"
  by (simp add: shows_chat_def error_response_def chat_json_def chat_summary_def)

lemma shows_chat_message [simp]: "\<not> shows_chat c (body (message_response msg))"
  by (simp add: shows_chat_def message_response_def chat_json_def chat_summary_def)

lemma shows_chat_message_json: "\<not> shows_chat c (message_json m)"
  by (simp add: shows_chat_def message_json_def chat_json_def chat_summary_def)

lemma shows_chat_message_object: "\<not> shows_chat c (message_object m)"
  by (simp add: shows_chat_def message_object_def chat_json_def chat_summary_def)

lemma shows_chat_chat_json:
  "shows_chat c (chat_json c') \<Longrightarrow> chat_userId c = chat_userId c'"
proof -
  assume a: "shows_chat c (chat_json c')"
  have "j \<notin> set (concat (map json_parts (map message_json ms)))"
    if "j = chat_json c \<or> j = chat_summary c" for j ms
    using that shows_chat_message_json [of c] by (auto simp: shows_chat_def)
  with a show ?thesis
    by (auto simp: shows_chat_def chat_json_def chat_summary_def)
qed

lemma shows_chat_chat_summary:
  "shows_chat c (chat_summary c') \<Longrightarrow> chat_id c = chat_id c'"
  by (auto simp: shows_chat_def chat_json_def chat_summary_def)

lemma shows_chat_recommendations:
  "\<not> shows_chat c (JArr (recommendations (generateAIResponse f m l)))"
  by (simp add: shows_chat_def generateAIResponse_def Let_def chat_json_def chat_summary_def
      cheesecake_recommendations_def deals_recommendations_def restaurant_recommendations_def)

lemma shows_chat_JArr:
  "shows_chat c (JArr xs) \<longleftrightarrow> (\<exists>x \<in> set xs. shows_chat c x)"
  by (auto simp: shows_chat_def chat_json_def chat_summary_def)

lemma getChat_returns:
  assumes "chat_userId c \<noteq> uid"
  shows "\<not> shows_chat c (body (fst (getChat d uid chatId)))"
  using assms
  by (auto simp: getChat_def split: option.splits dest!: findOne_SomeD shows_chat_chat_json)

lemma createChat_returns:
  assumes "chat_userId c \<noteq> uid"
  shows "\<not> shows_chat c (body (fst (createChat d uid newId now)))"
  using assms
  by (auto simp: createChat_def Let_def server_error_def split: option.splits
      dest!: shows_chat_chat_json)

lemma listChats_returns:
  assumes "distinct (map chat_id (chats d))" and "c \<in> set (chats d)" and "chat_userId c \<noteq> uid"
  shows "\<not> shows_chat c (body (fst (listChats d uid)))"
proof
  assume "shows_chat c (body (fst (listChats d uid)))"
  then obtain c' where c': "c' \<in> set (chats d)" "chat_userId c' = uid" "shows_chat c (chat_summary c')"
    by (auto simp: listChats_def shows_chat_JArr)
  then have "chat_id c = chat_id c'" by (auto dest: shows_chat_chat_summary)
  with assms(1,2) c'(1) have "c = c'" by (metis distinct_map inj_onD)
  with c'(2) assms(3) show False by simp
qed

lemma shows_chat_JObj2:
  "shows_chat c (JObj [(k1, JStr s), (k2, v)]) \<longleftrightarrow> shows_chat c v"
  by (auto simp: shows_chat_def chat_json_def chat_summary_def)

lemma updateTitle_returns:
  assumes "chat_userId c \<noteq> uid"
  shows "\<not> shows_chat c (body (fst (updateTitle d uid chatId now title)))"
  using assms
  by (auto simp: updateTitle_def findOneAndUpdate_def shows_chat_JObj2
      split: option.splits dest!: findOne_SomeD shows_chat_chat_json)

lemma deleteChat_returns: "\<not> shows_chat c (body (fst (deleteChat d uid chatId)))"
  by (simp add: deleteChat_def findOneAndDelete_def split: option.splits)

lemma shows_chat_exchange:
  "shows_chat c (JObj [(k1, u), (k2, a), (k3, r)]) \<longleftrightarrow>
   shows_chat c u \<or> shows_chat c a \<or> shows_chat c r"
  by (auto simp: shows_chat_def chat_json_def chat_summary_def)

lemma postMessage_returns: "\<not> shows_chat c (body (fst (postMessage L d uid chatId t1 t2 t3 message)))"
  by (simp add: postMessage_def Let_def shows_chat_exchange shows_chat_message_object
      shows_chat_recommendations split: option.splits)

lemma route_others:
  assumes "distinct (map chat_id (chats d))"
  shows "filter (\<lambda>c. chat_userId c \<noteq> uid) (chats (snd (route L i d uid req))) =
         filter (\<lambda>c. chat_userId c \<noteq> uid) (chats d)"
proof (cases req)
  case (PostMessage chatId message)
  then show ?thesis using postMessage_others [OF assms] by simp
next
  case (UpdateProfile name preferredLanguage)
  then show ?thesis
    by (simp add: updateProfile_def findOneAndUpdate_def split: option.splits)
next
  case (SetLocation latitude longitude address)
  then show ?thesis
    by (simp add: setLocation_def findOneAndUpdate_def split: option.splits)
qed (simp_all add: listChats_others getChat_others createChat_others updateTitle_others
      deleteChat_others getProfile_def getLocation_def deleteLocation_def findOneAndUpdate_def
      split: option.splits)

lemma route_returns:
  assumes "distinct (map chat_id (chats d))" and "c \<in> set (chats d)" and "chat_userId c \<noteq> uid"
    and "is_chat_request req"
  shows "\<not> shows_chat c (body (fst (route L i d uid req)))"
  using assms(4)
proof (cases req)
  case ListChats
  then show ?thesis using listChats_returns [OF assms(1-3)] by simp
qed (simp_all add: getChat_returns createChat_returns updateTitle_returns deleteChat_returns
      postMessage_returns assms(3))

text \<open>
  Claim C1, as the code has it. Take a store whose chats have distinct identifiers, a
  chat \<open>c\<close> in it and a user \<open>uid\<close> who is not its owner. Get-chat and delete-chat with
  the identifier of \<open>c\<close> answer 404 and leave the store as it is. Update-title with that
  identifier answers 404 and leaves the store as it is when the title it is given is not
  empty after trimming; when the title is absent or empty after trimming it answers 400
  before it looks the chat up. Every chat request of \<open>uid\<close> leaves the chats of all other
  users as they are, \<open>c\<close> among them, and neither the document of \<open>c\<close> nor its summary is
  in the response.
\<close>

theorem chat_ownership_isolation:
  assumes "distinct (map chat_id (chats d))"
    and "c \<in> set (chats d)" and "chat_userId c \<noteq> uid"
  shows "getChat d uid (chat_id c) = (error_response 404 ''Chat not found'', d) \<and>
         deleteChat d uid (chat_id c) = (error_response 404 ''Chat not found'', d) \<and>
         (trim t \<noteq> [] \<longrightarrow>
            updateTitle d uid (chat_id c) now (Some t) =
              (error_response 404 ''Chat not found'', d)) \<and>
         (title = None \<or> trim (str_val title) = [] \<longrightarrow>
            updateTitle d uid (chat_id c) now title =
              (error_response 400 ''Title is required'', d)) \<and>
         (is_chat_request req \<longrightarrow>
            filter (\<lambda>x. chat_userId x \<noteq> uid) (chats (snd (route L i d uid req))) =
              filter (\<lambda>x. chat_userId x \<noteq> uid) (chats d) \<and>
            c \<in> set (chats (snd (route L i d uid req))) \<and>
            \<not> shows_chat c (body (fst (route L i d uid req))))"
proof -
  have same: "filter (\<lambda>x. chat_userId x \<noteq> uid) (chats (snd (route L i d uid req))) =
              filter (\<lambda>x. chat_userId x \<noteq> uid) (chats d)"
    using assms(1) by (rule route_others)
  from assms(2,3) have "c \<in> set (filter (\<lambda>x. chat_userId x \<noteq> uid) (chats d))" by simp
  with same have "c \<in> set (filter (\<lambda>x. chat_userId x \<noteq> uid) (chats (snd (route L i d uid req))))"
    by simp
  then have kept: "c \<in> set (chats (snd (route L i d uid req)))"
    by simp
  show ?thesis
    using getChat_other [OF assms] deleteChat_other [OF assms] updateTitle_other [OF assms]
      updateTitle_invalid [of title d uid "chat_id c" now] same kept
      route_returns [OF assms]
    by blast
qed

theorem chat_ownership_isolation_witness:
  "getChat sample_db 20 1 = (error_response 404 ''Chat not found'', sample_db) \<and>
   deleteChat sample_db 20 1 = (error_response 404 ''Chat not found'', sample_db) \<and>
   updateTitle sample_db 20 1 500 (Some (ascii ''hello'')) =
     (error_response 404 ''Chat not found'', sample_db) \<and>
   updateTitle sample_db 20 1 500 None = (error_response 400 ''Title is required'', sample_db) \<and>
   alice_chat \<in> set (chats (snd (route stub_library
      \<lparr>in_salt = [], in_newId = 2, in_t1 = 500, in_t2 = 501, in_t3 = 502\<rparr>
      sample_db 20 (PostMessage 1 (Some (ascii ''hello''))))))"
proof -
  have h1: "distinct (map chat_id (chats sample_db))"
    and h2: "alice_chat \<in> set (chats sample_db)"
    and h3: "chat_userId alice_chat \<noteq> 20"
    and id: "chat_id alice_chat = 1"
    by (simp_all add: sample_db_def alice_chat_def)
  have req: "is_chat_request (PostMessage 1 (Some (ascii ''hello'')))" by simp
  from chat_ownership_isolation [OF h1 h2 h3, of "ascii ''hello''" 500 None
         "PostMessage 1 (Some (ascii ''hello''))" stub_library
         "\<lparr>in_salt = [], in_newId = 2, in_t1 = 500, in_t2 = 501, in_t3 = 502\<rparr>"]
       trim_nonempty_examples(1) req
  show ?thesis unfolding id by blast
qed

text \<open>
  Claim C1 as stated fails for update-title: the second user asks for a new title of the
  first user's chat and sends an empty title, a title of three spaces, or none; the
  answer is 400, not 404.
\<close>

theorem updateTitle_other_owner_empty_title:
  "alice_chat \<in> set (chats sample_db) \<and> chat_userId alice_chat \<noteq> 20 \<and>
   chat_id alice_chat = 1 \<and>
   status (fst (updateTitle sample_db 20 1 500 (Some []))) = 400 \<and>
   status (fst (updateTitle sample_db 20 1 500 (Some (ascii ''   '')))) = 400 \<and>
   status (fst (updateTitle sample_db 20 1 500 None)) = 400"
  by (simp add: sample_db_def alice_chat_def updateTitle_def falsy_str_def str_val_def
      error_response_def trim_def ascii_def isWhiteSpace_def)

section \<open>Registration\<close>

lemma save_new_fresh:
  "\<forall>x \<in> set xs. ident x \<noteq> ident doc \<Longrightarrow> save_new ident doc xs = Some (xs @ [doc])"
  by (simp add: save_new_def list_ex_iff)

lemma falsy_string: "falsy (map_option VStr x) = (x = None \<or> x = Some [])"
  by (cases x) (simp_all add: falsy_def)


lemma register_accepted:
  assumes "\<forall>u \<in> set (users d). user_id u \<noteq> newId"
    and "n \<noteq> []" and "e \<noteq> []" and "p \<noteq> []"
    and "lib_isEmail L e" and "6 \<le> length p"
    and "\<forall>u \<in> set (users d). user_email u \<noteq> bson_string e"
  shows "register L env d salt newId now (Some (VStr n)) (Some (VStr e)) (Some (VStr p)) =
           (\<lparr>status = 201,
             body = JObj [(''token'', JStr (lib_jwt_sign L newId (jwt_secret env) (ascii ''7d''))),
                          (''user'', JObj [(''id'', JId newId), (''name'', JStr n),
                                          (''email'', JStr e),
                                          (''preferredLanguage'', JStr (ascii ''en''))])]\<rparr>,
            d\<lparr>users := users d @
               [\<lparr>user_id = newId, user_name = bson_string n, user_email = bson_string e,
                 user_password = bson_string (lib_bcrypt_hash L p salt),
                 user_preferredLanguage = ascii ''en'', user_location = None,
                 user_createdAt = now\<rparr>]\<rparr>)"
proof -
  have none: "findOne (\<lambda>u. user_email u = bson_string e) (users d) = None"
    using assms(7) by (simp add: findOne_None_iff)
  have en: "bson_string (ascii ''en'') = ascii ''en''"
    by (simp add: ascii_def lone_def is_high_def is_low_def)
  have save: "save_new user_id u (users d) = Some (users d @ [u])" if "user_id u = newId" for u
    using assms(1) that by (simp add: save_new_fresh)
  from assms(2-6) none show ?thesis
    by (simp add: register_def falsy_def length_below_6_def cast_string_def Let_def save
        public_user_def bson_user_def en)
qed






section \<open>The location of a user\<close>

text \<open>
  Claim C7 says that setting the location answers 400 exactly when the latitude or the
  longitude is absent. The handler tests \<open>!latitude || !longitude\<close>, and zero is falsy: a
  request with latitude 0 (any point of the equator) or longitude 0 (any point of the
  prime meridian) is answered 400 although both coordinates are there.
\<close>

theorem setLocation_rejects_zero:
  "setLocation L d uid now (Some (Finite 0)) (Some (Finite 36.8)) address =
     (error_response 400 ''Latitude and longitude are required'', d) \<and>
   setLocation L d uid now (Some (Finite 51.5)) (Some (Finite 0)) address =
     (error_response 400 ''Latitude and longitude are required'', d)"
  by (simp add: setLocation_def falsy_num_def)

text \<open>What the handler does: it answers 400 exactly when a coordinate is absent or zero.\<close>

lemma setLocation_outcome:
  "fst (setLocation L d uid now latitude longitude address) =
     error_response 400 ''Latitude and longitude are required'' \<longleftrightarrow>
   latitude = None \<or> latitude = Some (Finite 0) \<or>
   longitude = None \<or> longitude = Some (Finite 0)"
  by (auto simp: setLocation_def falsy_num_def error_response_def server_error_def
      findOneAndUpdate_def split: option.splits)

text \<open>
  And on success it stores both coordinates, the time of the update and the address; the
  address is the two numbers joined by a comma and a space when the request has none or
  an empty one.
\<close>

lemma setLocation_stores:
  assumes "findOne (\<lambda>u. user_id u = uid) (users d) = Some u"
    and "lat \<noteq> Finite 0" and "lon \<noteq> Finite 0"
  shows "setLocation L d uid now (Some lat) (Some lon) address =
     (\<lparr>status = 200,
       body = JObj [(''message'', JStr (ascii ''Location saved successfully'')),
                    (''location'', location_json
                       \<lparr>loc_latitude = lat, loc_longitude = lon,
                        loc_address = bson_string (case address of
                           None \<Rightarrow> number_to_string L lat @ ascii '', '' @ number_to_string L lon
                         | Some a \<Rightarrow> if a = []
                             then number_to_string L lat @ ascii '', '' @ number_to_string L lon
                             else a),
                        loc_lastUpdated = now\<rparr>)]\<rparr>,
      d\<lparr>users := update_first (\<lambda>u. user_id u = uid)
            (\<lambda>u. u\<lparr>user_location := Some
               \<lparr>loc_latitude = lat, loc_longitude = lon,
                loc_address = bson_string (case address of
                   None \<Rightarrow> number_to_string L lat @ ascii '', '' @ number_to_string L lon
                 | Some a \<Rightarrow> if a = []
                     then number_to_string L lat @ ascii '', '' @ number_to_string L lon
                     else a),
                loc_lastUpdated = now\<rparr>\<rparr>) (users d)\<rparr>)"
  using assms
  by (simp add: setLocation_def falsy_num_def falsy_str_def num_val_def str_val_def
      findOneAndUpdate_def optional_field_def split: option.splits)

section \<open>Messages come in pairs\<close>

lemma paired_append:
  "paired ms \<Longrightarrow> msg_role u = User \<Longrightarrow> msg_role a = Assistant \<Longrightarrow>
   msg_language u = msg_language a \<Longrightarrow> paired (ms @ [u, a])"
  by (induction ms rule: paired.induct) auto

lemma paired_even: "paired ms \<Longrightarrow> even (length ms)"
  by (induction ms rule: paired.induct) auto

lemma paired_roles:
  "paired ms \<Longrightarrow> i < length ms \<Longrightarrow> msg_role (ms ! i) = (if even i then User else Assistant)"
proof (induction ms arbitrary: i rule: paired.induct)
  case 1
  then show ?case by simp
next
  case (2 m)
  then show ?case by simp
next
  case (3 u a ms)
  show ?case
  proof (cases i)
    case 0
    with 3 show ?thesis by simp
  next
    case (Suc j)
    show ?thesis
    proof (cases j)
      case 0
      with Suc 3 show ?thesis by simp
    next
      case (Suc k)
      with \<open>i = Suc j\<close> 3 show ?thesis by simp
    qed
  qed
qed

lemma paired_languages:
  "paired ms \<Longrightarrow> even i \<Longrightarrow> Suc i < length ms \<Longrightarrow>
   msg_language (ms ! i) = msg_language (ms ! Suc i)"
proof (induction ms arbitrary: i rule: paired.induct)
  case 1
  then show ?case by simp
next
  case (2 m)
  then show ?case by simp
next
  case (3 u a ms)
  show ?case
  proof (cases i)
    case 0
    with 3 show ?thesis by simp
  next
    case (Suc j)
    with 3 obtain k where "j = Suc k" by (cases j) auto
    with Suc 3 show ?thesis by simp
  qed
qed

lemma set_update_first: "set (update_first p f xs) \<subseteq> set xs \<union> f ` {x \<in> set xs. p x}"
  by (induction xs) auto

lemma set_delete_first: "set (delete_first p xs) \<subseteq> set xs"
  by (induction xs) auto

lemma distinct_delete_first:
  "distinct (map ident xs) \<Longrightarrow> distinct (map ident (delete_first p xs))"
proof (induction xs)
  case Nil
  then show ?case by simp
next
  case (Cons x xs)
  have "ident ` set (delete_first p xs) \<subseteq> ident ` set xs"
    using set_delete_first [of p xs] by blast
  with Cons show ?case by auto
qed

lemma chats_ok_update_first:
  assumes "chats_ok cs"
    and "\<And>x. x \<in> set cs \<Longrightarrow> p x \<Longrightarrow>
           chat_id (f x) = chat_id x \<and> paired (chat_messages (f x)) \<and>
           map bson_message (chat_messages (f x)) = chat_messages (f x)"
  shows "chats_ok (update_first p f cs)"
proof -
  have "map chat_id (update_first p f cs) = map chat_id cs"
    by (rule update_first_ident) (simp add: assms(2))
  moreover have "paired (chat_messages y) \<and> map bson_message (chat_messages y) = chat_messages y"
    if "y \<in> set (update_first p f cs)" for y
  proof -
    from that set_update_first [of p f cs]
    have "y \<in> set cs \<or> (\<exists>x \<in> set cs. p x \<and> y = f x)" by blast
    with assms show ?thesis by (auto simp: chats_ok_def list_all_iff)
  qed
  ultimately show ?thesis using assms(1) by (simp add: chats_ok_def list_all_iff)
qed

lemma paired_bson: "paired ms \<Longrightarrow> paired (map bson_message ms)"
  by (induction ms rule: paired.induct) simp_all

lemma chats_ok_delete_first: "chats_ok cs \<Longrightarrow> chats_ok (delete_first p cs)"
  using set_delete_first [of p cs]
  by (auto simp: chats_ok_def distinct_delete_first list_all_iff)

lemma createChat_ok: "chats_ok (chats d) \<Longrightarrow> chats_ok (chats (snd (createChat d uid newId now)))"
  by (auto simp: createChat_def save_new_def Let_def chats_ok_def list_ex_iff)

lemma updateTitle_ok:
  assumes "chats_ok (chats d)"
  shows "chats_ok (chats (snd (updateTitle d uid chatId now title)))"
proof -
  have "chats_ok (update_first (\<lambda>c. chat_id c = chatId \<and> chat_userId c = uid)
          (\<lambda>c. c\<lparr>chat_title := t, chat_updatedAt := now\<rparr>) (chats d))" for t
    by (rule chats_ok_update_first [OF assms])
       (use assms in \<open>auto simp: chats_ok_def list_all_iff\<close>)
  with assms show ?thesis
    by (simp add: updateTitle_def findOneAndUpdate_def split: option.splits)
qed

lemma deleteChat_ok: "chats_ok (chats d) \<Longrightarrow> chats_ok (chats (snd (deleteChat d uid chatId)))"
  by (auto simp: deleteChat_def findOneAndDelete_def chats_ok_delete_first split: option.splits)

lemma postMessage_ok:
  assumes "chats_ok (chats d)"
  shows "chats_ok (chats (snd (postMessage L d uid chatId t1 t2 t3 message)))"
proof (cases "falsy_str message \<or> trim (str_val message) = []")
  case True
  with assms show ?thesis by (auto simp: postMessage_def)
next
  case False
  then obtain m where m: "message = Some m" "trim m \<noteq> []"
    by (cases message) (auto simp: falsy_str_def str_val_def)
  show ?thesis
  proof (cases "findOne (\<lambda>c. chat_id c = chatId \<and> chat_userId c = uid) (chats d)")
    case None
    with False assms show ?thesis by (simp add: postMessage_def)
  next
    case (Some c)
    then have c: "c \<in> set (chats d)" by (auto dest: findOne_SomeD)
    with assms have "paired (chat_messages c)" by (simp add: chats_ok_def list_all_iff)
    then have "paired (chat_messages c @
        [\<lparr>msg_role = User, msg_content = trim m, msg_timestamp = t1,
          msg_language = detectLanguage m\<rparr>,
         \<lparr>msg_role = Assistant,
          msg_content = content (generateAIResponse (lib_unicodeLower L) m (detectLanguage m)),
          msg_timestamp = t2, msg_language = detectLanguage m\<rparr>])"
      by (simp add: paired_append)
    from this [THEN paired_bson] have p: "paired (chat_messages (exchanged L c t1 t2 t3 m))"
      by (simp add: exchanged_def)
    have e: "map bson_message (chat_messages (exchanged L c t1 t2 t3 m)) =
        chat_messages (exchanged L c t1 t2 t3 m)"
      by (simp add: exchanged_def bson_message_idem)
    have "chats_ok (update_first (\<lambda>x. chat_id x = chat_id (exchanged L c t1 t2 t3 m))
                 (\<lambda>_. exchanged L c t1 t2 t3 m) (chats d))"
      using assms p e by (intro chats_ok_update_first) simp_all
    then show ?thesis
      unfolding m postMessage_found(1) [OF Some m(2)] by (simp add: save_loaded_def)
  qed
qed

lemma route_ok: "chats_ok (chats d) \<Longrightarrow> chats_ok (chats (snd (route L i d uid req)))"
  by (cases req)
     (simp_all add: createChat_ok updateTitle_ok deleteChat_ok postMessage_ok
        listChats_def getChat_def getProfile_def updateProfile_def setLocation_def
        getLocation_def deleteLocation_def findOneAndUpdate_def split: option.splits)

lemma register_chats: "chats (snd (register L env d salt newId now name email password)) = chats d"
  by (simp add: register_def Let_def split: option.splits jsvalue.splits bool.splits)

lemma login_chats: "chats (snd (login L env d email password)) = chats d"
  by (simp add: login_def split: option.splits)

lemma handle_ok:
  "chats_ok (chats d) \<Longrightarrow> chats_ok (chats (snd (handle L env i d authorization req)))"
  by (cases req)
     (simp_all add: register_chats login_chats route_ok del: route.simps split: sum.splits)

lemma reachable_ok: "reachable L env d \<Longrightarrow> chats_ok (chats d)"
proof (induction rule: reachable.induct)
  case reachable_empty
  show ?case by (simp add: empty_db_def chats_ok_def)
next
  case (reachable_step d i authorization req)
  from reachable_step.IH show ?case by (rule handle_ok)
qed

lemma registered_db_eq:
  "registered_db =
     \<lparr>users = [\<lparr>user_id = 10, user_name = ascii ''Alice'', user_email = ascii ''alice@example.org'',
                 user_password = ascii ''salt'' @ rev (ascii ''secret1''),
                 user_preferredLanguage = ascii ''en'', user_location = None,
                 user_createdAt = 100\<rparr>],
      chats = []\<rparr>"
proof -
  have valid: "lib_isEmail stub_library (ascii ''alice@example.org'')"
    and hash: "lib_bcrypt_hash stub_library (ascii ''secret1'') (ascii ''salt'') =
                 ascii ''salt'' @ rev (ascii ''secret1'')"
    by (simp_all add: stub_library_def ascii_def)
  have stored: "bson_string (ascii ''Alice'') = ascii ''Alice''"
    "bson_string (ascii ''alice@example.org'') = ascii ''alice@example.org''"
    "bson_string (ascii ''salt'' @ rev (ascii ''secret1'')) = ascii ''salt'' @ rev (ascii ''secret1'')"
    by (simp_all add: ascii_def lone_def is_high_def is_low_def)
  have "register stub_library None empty_db (ascii ''salt'') 10 100
          (Some (VStr (ascii ''Alice''))) (Some (VStr (ascii ''alice@example.org'')))
          (Some (VStr (ascii ''secret1''))) =
        (\<lparr>status = 201,
          body = JObj [(''token'', JStr (lib_jwt_sign stub_library 10 (jwt_secret None) (ascii ''7d''))),
                       (''user'', JObj [(''id'', JId 10), (''name'', JStr (ascii ''Alice'')),
                                       (''email'', JStr (ascii ''alice@example.org'')),
                                       (''preferredLanguage'', JStr (ascii ''en''))])]\<rparr>,
         empty_db\<lparr>users := users empty_db @
            [\<lparr>user_id = 10, user_name = bson_string (ascii ''Alice''),
              user_email = bson_string (ascii ''alice@example.org''),
              user_password = bson_string (lib_bcrypt_hash stub_library (ascii ''secret1'') (ascii ''salt'')),
              user_preferredLanguage = ascii ''en'', user_location = None,
              user_createdAt = 100\<rparr>]\<rparr>)"
    by (rule register_accepted) (simp_all add: empty_db_def valid, simp_all add: ascii_def)
  then show ?thesis
    by (simp add: registered_db_def hash stored empty_db_def)
qed

lemma bearer_token: "replace_str (ascii ''Bearer token-of-10'') (ascii ''Bearer '') [] = ascii ''token-of-10''"
  by (simp add: ascii_def)

lemma chat_db_eq: "chats chat_db = [alice_chat]"
  by (simp add: chat_db_def registered_db_eq authMiddleware_def bearer_token falsy_str_def
      str_val_def stub_library_def findOne_def createChat_def save_new_def Let_def alice_chat_def
      bson_chat_def)
     (simp add: ascii_def lone_def is_high_def is_low_def)

text \<open>
  Claim C8. In every store that requests lead to from the empty store, every chat has an
  even number of messages, the message at an even position is the user's and the one at
  an odd position the assistant's, and each such pair carries one language. A message
  exchange of the owner with a message that is not empty after trimming appends exactly
  two messages to the chat, the user's and then the assistant's, both with the language
  detected for the message.
\<close>

theorem messages_in_pairs:
  assumes "reachable L env d" and "c \<in> set (chats d)"
  shows "even (length (chat_messages c)) \<and>
         (\<forall>k < length (chat_messages c).
            msg_role (chat_messages c ! k) = (if even k then User else Assistant)) \<and>
         (\<forall>k. even k \<and> Suc k < length (chat_messages c) \<longrightarrow>
            msg_language (chat_messages c ! k) = msg_language (chat_messages c ! Suc k)) \<and>
         (chat_userId c = uid \<and> trim m \<noteq> [] \<longrightarrow>
            (\<exists>c' u a.
               findOne (\<lambda>x. chat_id x = chat_id c \<and> chat_userId x = uid)
                 (chats (snd (postMessage L d uid (chat_id c) t1 t2 t3 (Some m)))) = Some c' \<and>
               chat_messages c' = chat_messages c @ [u, a] \<and>
               msg_role u = User \<and> msg_role a = Assistant \<and>
               msg_language u = detectLanguage m \<and> msg_language a = detectLanguage m))"
proof -
  from assms(1) have ok: "chats_ok (chats d)" by (rule reachable_ok)
  with assms(2) have p: "paired (chat_messages c)"
    and dist: "distinct (map chat_id (chats d))"
    and enc: "map bson_message (chat_messages c) = chat_messages c"
    by (simp_all add: chats_ok_def list_all_iff)
  have step: "\<exists>c' u a.
               findOne (\<lambda>x. chat_id x = chat_id c \<and> chat_userId x = uid)
                 (chats (snd (postMessage L d uid (chat_id c) t1 t2 t3 (Some m)))) = Some c' \<and>
               chat_messages c' = chat_messages c @ [u, a] \<and>
               msg_role u = User \<and> msg_role a = Assistant \<and>
               msg_language u = detectLanguage m \<and> msg_language a = detectLanguage m"
    if "chat_userId c = uid" and "trim m \<noteq> []"
  proof -
    have "findOne (\<lambda>x. chat_id x = chat_id c \<and> chat_userId x = uid)
            (chats (snd (postMessage L d uid (chat_id c) t1 t2 t3 (Some m)))) =
          Some (exchanged L c t1 t2 t3 m)"
      using dist assms(2) that by (rule postMessage_stored)
    then show ?thesis by (simp add: exchanged_def enc bson_string_detectLanguage)
  qed
  from p step show ?thesis
    by (simp add: paired_even paired_roles paired_languages)
qed

theorem messages_in_pairs_witness:
  "reachable stub_library None chat_db \<and> alice_chat \<in> set (chats chat_db) \<and>
   (\<exists>c' u a.
      findOne (\<lambda>x. chat_id x = 1 \<and> chat_userId x = 10)
        (chats (snd (postMessage stub_library chat_db 10 1 400 401 402
                       (Some (ascii ''hello''))))) = Some c' \<and>
      chat_messages c' = [u, a] \<and> msg_role u = User \<and> msg_role a = Assistant \<and>
      msg_language u = ascii ''en'' \<and> msg_language a = ascii ''en'')"
proof -
  have r: "reachable stub_library None chat_db"
    unfolding chat_db_def registered_db_def
    by (intro reachable_step reachable_empty)
  have c: "alice_chat \<in> set (chats chat_db)" by (simp add: chat_db_eq)
  have f: "chat_userId alice_chat = 10" "chat_id alice_chat = 1" "chat_messages alice_chat = []"
    by (simp_all add: alice_chat_def)
  have en: "detectLanguage (ascii ''hello'') = ascii ''en''"
    by (simp add: detectLanguage_def banglaPattern_def arabicPattern_def chinesePattern_def
        ascii_def)
  from messages_in_pairs [OF r c, of 10 "ascii ''hello''" 400 401 402]
       trim_nonempty_examples(1) r c
  show ?thesis unfolding f en by simp
qed

section \<open>The password\<close>

lemma no_password_mk: "no_password \<lparr>status = s, body = b\<rparr> = (''password'' \<notin> set (json_keys b))"
  by (simp add: no_password_def)

lemma no_password_error [simp]: "no_password (error_response n msg)"
  by (simp add: no_password_def error_response_def)

lemma no_password_server_error [simp]: "no_password server_error"
  by (simp add: server_error_def)

lemma no_password_message [simp]: "no_password (message_response msg)"
  by (simp add: no_password_def message_response_def)

lemma keys_message_json:
  "json_keys (message_json m) = [''role'', ''content'', ''timestamp'', ''language'']"
  by (simp add: message_json_def)

lemma keys_message_object:
  "json_keys (message_object m) = [''role'', ''content'', ''language'', ''timestamp'']"
  by (simp add: message_object_def)

lemma keys_num_json: "json_keys (num_json n) = []"
  by (cases n) (simp_all add: num_json_def)

lemma keys_location_json:
  "json_keys (location_json l) = [''latitude'', ''longitude'', ''address'', ''lastUpdated'']"
  by (simp add: location_json_def keys_num_json)

lemma keys_public_user:
  "json_keys (public_user u) = [''id'', ''name'', ''email'', ''preferredLanguage'']"
  by (simp add: public_user_def)

lemma keys_chat_summary:
  "json_keys (chat_summary c) = [''_id'', ''title'', ''createdAt'', ''updatedAt'']"
  by (simp add: chat_summary_def)

lemma keys_chat_json: "''password'' \<notin> set (json_keys (chat_json c))"
  by (simp add: chat_json_def keys_message_json)

lemma keys_recommendations:
  "''password'' \<notin> set (json_keys (JArr (recommendations (generateAIResponse f m l))))"
  by (simp add: generateAIResponse_def Let_def cheesecake_recommendations_def
      deals_recommendations_def restaurant_recommendations_def)

lemma keys_user_projection:
  "''password'' \<notin> set (json_keys (JObj (select_minus ''password'' (user_doc u))))"
  by (cases "user_location u")
     (simp_all add: select_minus_def user_doc_def optional_field_def keys_location_json)

lemma register_no_password: "no_password (fst (register L env d salt newId now name email password))"
  by (simp add: register_def Let_def no_password_mk keys_public_user
      split: option.splits jsvalue.splits bool.splits)

lemma login_no_password: "no_password (fst (login L env d email password))"
  by (simp add: login_def no_password_mk keys_public_user split: option.splits)

lemma authMiddleware_no_password: "authMiddleware L env d authorization = Inl r \<Longrightarrow> no_password r"
  by (auto simp: authMiddleware_def Let_def split: if_splits option.splits)

lemma listChats_no_password: "no_password (fst (listChats d uid))"
  by (simp add: listChats_def no_password_mk keys_chat_summary)

lemma createChat_no_password: "no_password (fst (createChat d uid newId now))"
  by (simp add: createChat_def Let_def no_password_mk keys_chat_json split: option.splits)

lemma getChat_no_password: "no_password (fst (getChat d uid chatId))"
  by (simp add: getChat_def no_password_mk keys_chat_json split: option.splits)

lemma postMessage_no_password: "no_password (fst (postMessage L d uid chatId t1 t2 t3 message))"
  using keys_recommendations
  by (simp add: postMessage_def Let_def no_password_mk keys_message_object
      split: option.splits)

lemma updateTitle_no_password: "no_password (fst (updateTitle d uid chatId now title))"
  by (simp add: updateTitle_def findOneAndUpdate_def no_password_mk keys_chat_json
      split: option.splits)

lemma deleteChat_no_password: "no_password (fst (deleteChat d uid chatId))"
  by (simp add: deleteChat_def findOneAndDelete_def split: option.splits)

lemma getProfile_no_password: "no_password (fst (getProfile d uid))"
proof (cases "findOne (\<lambda>u. user_id u = uid) (users d)")
  case None
  then show ?thesis by (simp add: getProfile_def)
next
  case (Some u)
  then show ?thesis
    by (cases "user_location u")
       (simp_all add: getProfile_def no_password_mk select_minus_def user_doc_def
          optional_field_def keys_location_json)
qed

lemma updateProfile_no_password: "no_password (fst (updateProfile d uid name preferredLanguage))"
  using keys_user_projection
  by (simp add: updateProfile_def findOneAndUpdate_def no_password_mk split: option.splits)

lemma setLocation_no_password:
  "no_password (fst (setLocation L d uid now latitude longitude address))"
  by (simp add: setLocation_def findOneAndUpdate_def no_password_mk optional_field_def
      keys_location_json split: option.splits)

lemma getLocation_no_password: "no_password (fst (getLocation d uid))"
  by (simp add: getLocation_def no_password_mk keys_location_json split: option.splits)

lemma deleteLocation_no_password: "no_password (fst (deleteLocation d uid))"
  by (simp add: deleteLocation_def split: prod.splits)

lemma route_no_password: "no_password (fst (route L i d uid req))"
  by (cases req)
     (simp_all add: listChats_no_password createChat_no_password getChat_no_password
        postMessage_no_password updateTitle_no_password deleteChat_no_password
        getProfile_no_password updateProfile_no_password setLocation_no_password
        getLocation_no_password deleteLocation_no_password)

lemma handle_no_password: "no_password (fst (handle L env i d authorization req))"
  by (cases req)
     (simp_all add: register_no_password login_no_password route_no_password health_def
        authMiddleware_no_password del: route.simps split: sum.splits)

text \<open>
  What the handlers decide about the password. No response body of any route, behind the
  gate or not, successful or not, has a \<open>password\<close> key at any depth; the document that
  the profile update returns has lost the key by its projection. When registration
  answers 201, the password it was given is a string, and the password field of the one
  user it appends is what the store keeps of the hash function's result for that string
  and the salt. Whether that result can be the submitted string itself is a property of
  the hash function alone, which is the library's and a parameter here: the handlers
  neither exclude nor produce such a case.
\<close>

lemma no_response_has_password_key:
  "''password'' \<notin> set (json_keys (body (fst (handle L env i d authorization req))))"
  using handle_no_password [of L env i d authorization req] by (simp add: no_password_def)

lemma register_stores_hash:
  assumes "status (fst (register L env d salt newId now name email password)) = 201"
  shows "\<exists>p u. password = Some (VStr p) \<and>
           users (snd (register L env d salt newId now name email password)) = users d @ [u] \<and>
           user_password u = bson_string (lib_bcrypt_hash L p salt)"
  using assms
  by (auto simp: register_def Let_def error_response_def server_error_def save_new_def
      bson_user_def split: if_splits option.splits jsvalue.splits bool.splits)

text \<open>An example: the response of a profile update is the document without its password.\<close>

lemma updateProfile_example:
  "body (fst (handle stub_library None
       \<lparr>in_salt = [], in_newId = 2, in_t1 = 500, in_t2 = 501, in_t3 = 502\<rparr>
       sample_db (Some (ascii ''Bearer token-of-10''))
       (UpdateProfile (Some (ascii ''Alice L.'')) None))) =
   JObj [(''_id'', JId 10), (''name'', JStr (ascii ''Alice L.'')),
         (''email'', JStr (ascii ''alice@example.org'')),
         (''preferredLanguage'', JStr (ascii ''en'')), (''createdAt'', JDate 100)]"
  by (simp add: authMiddleware_def bearer_token falsy_str_def str_val_def stub_library_def
      sample_db_def alice_def bob_def findOne_def updateProfile_def findOneAndUpdate_def
      select_minus_def user_doc_def optional_field_def Let_def)
     (simp add: ascii_def lone_def is_high_def is_low_def)

end
